theory Spec2Isabelle
  imports Main "HOL-Library.Word" "HOL-Library.Sublist"
begin

unbundle bit_operations_syntax

section \<open>Data model\<close>

type_synonym u8 = "8 word"
type_synonym u16 = "16 word"
type_synonym u32 = "32 word"

text \<open>
  The constants of \<^verbatim>\<open>ath3k_hw.h\<close> (request codes, state bits, clock codes and the two
  chunk sizes) and \<^verbatim>\<open>FILENAME_MAX\<close> of \<^verbatim>\<open>stdio.h\<close> are not part of the sources at
  hand. They are parameters of every function below, collected in one record; the field
  names are the macro names.
\<close>

record hw_consts =
  FW_HDR_SIZE :: nat
  BULK_SIZE :: nat
  ATH3K_DNLOAD :: u8
  ATH3K_GETSTATE :: u8
  ATH3K_GETVERSION :: u8
  ATH3K_SET_NORMAL_MODE :: u8
  USB_REG_SWITCH_VID_PID :: u8
  ATH3K_PATCH_UPDATE :: u8
  ATH3K_MODE_MASK :: u8
  ATH3K_NORMAL_MODE :: u8
  ATH3K_XTAL_FREQ_26M :: u32
  ATH3K_XTAL_FREQ_40M :: u32
  ATH3K_XTAL_FREQ_19P2 :: u32
  FILENAME_MAX :: nat

text \<open>
  A transfer handed to libusb. Every call of the program passes \<^verbatim>\<open>wValue = 0\<close>,
  \<^verbatim>\<open>wIndex = 0\<close> and a timeout of 1000 ms; the two words are recorded, the timeout is
  not. \<open>ControlOut\<close> is \<^verbatim>\<open>libusb_control_transfer\<close> with request type
  \<^verbatim>\<open>LIBUSB_REQUEST_TYPE_VENDOR | LIBUSB_ENDPOINT_OUT\<close> (the direction bit is zero, so
  the calls that pass \<^verbatim>\<open>LIBUSB_REQUEST_TYPE_VENDOR\<close> alone are the same transfer);
  \<open>ControlIn\<close> is the one with \<^verbatim>\<open>LIBUSB_ENDPOINT_IN\<close>.
\<close>

datatype xfer =
    ControlOut u8 u16 u16 "u8 list"   \<comment> \<open>bRequest, wValue, wIndex, the wLength bytes sent\<close>
  | ControlIn u8 u16 u16 nat          \<comment> \<open>bRequest, wValue, wIndex, wLength\<close>
  | BulkOut u8 "u8 list"              \<comment> \<open>endpoint, the bytes sent\<close>

text \<open>
  What libusb hands back for one transfer: the return value of the call, the bytes a
  device-to-host transfer stored in the caller's buffer, and the \<^verbatim>\<open>transferred\<close>
  count of a bulk transfer.
\<close>

record reply =
  usb_ret :: int
  usb_data :: "u8 list"
  usb_transferred :: int

text \<open>
  The device is any function from the transfers issued so far, the current one last, to
  the reply to the current one: every deterministic device, bus and driver is of this form.
\<close>

type_synonym device = "xfer list \<Rightarrow> reply"

text \<open>
  What a run does, in order: USB transfers, firmware files read, firmware buffers freed.
  The messages the program prints to \<^verbatim>\<open>stderr\<close> are left out.
\<close>

datatype event = Usb xfer | FwRead string | FwFree string

fun usb_of :: "event list \<Rightarrow> xfer list" where
  "usb_of [] = []"
| "usb_of (Usb x # es) = x # usb_of es"
| "usb_of (FwRead n # es) = usb_of es"
| "usb_of (FwFree n # es) = usb_of es"

section \<open>The libusb calls\<close>

text \<open>
  \<^verbatim>\<open>libusb_control_transfer\<close> takes the length as a \<^verbatim>\<open>uint16_t\<close>: the \<^verbatim>\<open>int\<close> the
  program passes is reduced modulo \<open>2 ^ 16\<close>. The host-to-device call sends that many
  bytes from the pointer it is given (\<open>bytes\<close> is the memory from that pointer on).
\<close>

definition libusb_control_out ::
  "device \<Rightarrow> u8 \<Rightarrow> u8 list \<Rightarrow> nat \<Rightarrow> event list \<Rightarrow> int \<times> event list" where
  "libusb_control_out dev bRequest bytes wLength tr =
     (let x = ControlOut bRequest 0 0 (take (wLength mod 65536) bytes)
      in (usb_ret (dev (usb_of tr @ [x])), tr @ [Usb x]))"

text \<open>
  The device-to-host call overwrites the head of the caller's buffer with the bytes that
  arrived (at most \<open>wLength\<close> of them) and leaves the rest of the buffer as it was.
\<close>

definition libusb_control_in ::
  "device \<Rightarrow> u8 \<Rightarrow> nat \<Rightarrow> u8 list \<Rightarrow> event list \<Rightarrow> int \<times> u8 list \<times> event list" where
  "libusb_control_in dev bRequest wLength buffer tr =
     (let x = ControlIn bRequest 0 0 (wLength mod 65536);
          r = dev (usb_of tr @ [x]);
          d = take (wLength mod 65536) (usb_data r)
      in (usb_ret r, d @ drop (length d) buffer, tr @ [Usb x]))"

definition libusb_bulk_transfer ::
  "device \<Rightarrow> u8 \<Rightarrow> u8 list \<Rightarrow> nat \<Rightarrow> event list \<Rightarrow> int \<times> int \<times> event list" where
  "libusb_bulk_transfer dev endpoint bytes n tr =
     (let x = BulkOut endpoint (take n bytes);
          r = dev (usb_of tr @ [x])
      in (usb_ret r, usb_transferred r, tr @ [Usb x]))"

section \<open>State and version queries\<close>

text \<open>
  \<^verbatim>\<open>ath3k_get_state(hdl, &state)\<close>: \<open>state\<close> is what the caller's byte holds before the
  call; the result is the return value, the byte afterwards and the trace.
\<close>

definition ath3k_get_state ::
  "hw_consts \<Rightarrow> device \<Rightarrow> u8 \<Rightarrow> event list \<Rightarrow> int \<times> u8 \<times> event list" where
  "ath3k_get_state K dev state tr =
     (case libusb_control_in dev (ATH3K_GETSTATE K) 1 [state] tr of
        (r, buffer, tr') \<Rightarrow>
          let state' = (case buffer of [] \<Rightarrow> state | b # _ \<Rightarrow> b)
          in if r < 0 then (0, state', tr')
             else ((if r = 1 then 1 else 0), state', tr'))"

text \<open>
  Modelled from the spec: \<^verbatim>\<open>struct ath3k_version\<close> is declared in \<^verbatim>\<open>ath3k_hw.h\<close>, which
  is not among the sources. The spec gives four unsigned 32-bit fields, 16 bytes in all.
\<close>

record ath3k_version =
  rom_version :: u32
  build_version :: u32
  ram_version :: u32
  ref_clock :: u32

definition sizeof_ath3k_version :: nat where
  "sizeof_ath3k_version = 16"

text \<open>
  The program reads 32-bit fields out of byte buffers by pointer casts, in the byte order
  of the host; the hosts it is written for are little-endian.
\<close>

fun le32 :: "u8 list \<Rightarrow> u32" where
  "le32 [] = 0"
| "le32 (b # bs) = ucast b OR push_bit 8 (le32 bs)"

definition version_of :: "u8 list \<Rightarrow> ath3k_version" where
  "version_of bs =
     \<lparr> rom_version = le32 (take 4 bs),
       build_version = le32 (take 4 (drop 4 bs)),
       ram_version = le32 (take 4 (drop 8 bs)),
       ref_clock = le32 (take 4 (drop 12 bs)) \<rparr>"

text \<open>
  \<^verbatim>\<open>ath3k_get_version(hdl, &version)\<close>: \<open>version\<close> is the 16 bytes of the caller's struct
  before the call.
\<close>

definition ath3k_get_version ::
  "hw_consts \<Rightarrow> device \<Rightarrow> u8 list \<Rightarrow> event list \<Rightarrow> int \<times> u8 list \<times> event list" where
  "ath3k_get_version K dev version tr =
     (case libusb_control_in dev (ATH3K_GETVERSION K) sizeof_ath3k_version version tr of
        (r, buffer, tr') \<Rightarrow>
          if r < 0 then (0, buffer, tr')
          else ((if r = int sizeof_ath3k_version then 1 else 0), buffer, tr'))"

section \<open>Firmware blobs\<close>

text \<open>
  Modelled from the spec: \<^verbatim>\<open>struct ath3k_firmware\<close>, \<^verbatim>\<open>ath3k_fw_read\<close> and
  \<^verbatim>\<open>ath3k_fw_free\<close> live in \<^verbatim>\<open>ath3k_fw.h\<close> and \<^verbatim>\<open>ath3k_fw.c\<close>, which are not among the
  sources. The spec: a blob is a filename (diagnostic only), a buffer and its length;
  \<open>read(path)\<close> reads the entire file, whose length must be at least 8 bytes, and fails
  with \<open>NotFound\<close>, \<open>IOError\<close> or \<open>Empty\<close>; the blob is released right after its upload.
  The callers only test the result of \<^verbatim>\<open>ath3k_fw_read\<close> for \<^verbatim>\<open><= 0\<close>: \<open>None\<close> stands
  for every such result, \<open>Some fw\<close> for a positive one. A file system maps a path to the
  bytes of the file, or to \<open>None\<close> where reading it fails.
\<close>

record ath3k_firmware =
  fwname :: string
  buf :: "u8 list"

definition len :: "ath3k_firmware \<Rightarrow> nat" where
  "len fw = length (buf fw)"

type_synonym filesystem = "string \<Rightarrow> u8 list option"

definition ath3k_fw_read ::
  "filesystem \<Rightarrow> string \<Rightarrow> event list \<Rightarrow> ath3k_firmware option \<times> event list" where
  "ath3k_fw_read fs name tr =
     (case fs name of
        None \<Rightarrow> (None, tr @ [FwRead name])
      | Some bytes \<Rightarrow>
          if length bytes < 8 then (None, tr @ [FwRead name])
          else (Some \<lparr> fwname = name, buf = bytes \<rparr>, tr @ [FwRead name]))"

definition ath3k_fw_free :: "ath3k_firmware \<Rightarrow> event list \<Rightarrow> event list" where
  "ath3k_fw_free fw tr = tr @ [FwFree (fwname fw)]"

section \<open>The upload engine\<close>

text \<open>
  \<^verbatim>\<open>ath3k_load_fwfile\<close>. The C variables \<^verbatim>\<open>count\<close>, \<^verbatim>\<open>size\<close> and \<^verbatim>\<open>sent\<close> are
  \<^verbatim>\<open>int\<close>s that start from \<^verbatim>\<open>fw->len\<close> and stay between 0 and it, so they are natural
  numbers here; \<open>drop sent (buf fw)\<close> is the pointer \<^verbatim>\<open>fw->buf + sent\<close>. The loop \<^verbatim>\<open>while (count)\<close> need not end (it spins when a chunk has
  size 0), so the loop returns an option: \<open>None\<close> is a run that never returns.
\<close>

partial_function (option) ath3k_load_fwfile_loop ::
  "hw_consts \<Rightarrow> device \<Rightarrow> ath3k_firmware \<Rightarrow> nat \<Rightarrow> nat \<Rightarrow> event list
     \<Rightarrow> (int \<times> event list) option" where
  "ath3k_load_fwfile_loop K dev fw sent count tr =
     (if count = 0 then Some (0, tr)
      else
        let sz = min count (BULK_SIZE K) in
        case libusb_bulk_transfer dev 2 (drop sent (buf fw)) sz tr of
          (r, transferred, tr') \<Rightarrow>
            if r < 0 \<or> transferred \<noteq> int sz then Some (- 1, tr')
            else ath3k_load_fwfile_loop K dev fw (sent + sz) (count - sz) tr')"

declare ath3k_load_fwfile_loop.simps [code]

definition ath3k_load_fwfile ::
  "hw_consts \<Rightarrow> device \<Rightarrow> ath3k_firmware \<Rightarrow> event list \<Rightarrow> (int \<times> event list) option" where
  "ath3k_load_fwfile K dev fw tr =
     (let count = len fw;
          sz = min count (FW_HDR_SIZE K)
      in case libusb_control_out dev (ATH3K_DNLOAD K) (drop 0 (buf fw)) sz tr of
           (r, tr') \<Rightarrow>
             if r \<noteq> int sz then Some (- 1, tr')
             else ath3k_load_fwfile_loop K dev fw sz (count - sz) tr')"

section \<open>File names\<close>

text \<open>
  \<^verbatim>\<open>snprintf(dst, n, ...)\<close> stores at most \<open>n - 1\<close> characters of the formatted text.
\<close>

definition snprintf :: "nat \<Rightarrow> string \<Rightarrow> string" where
  "snprintf n s = take (n - 1) s"

definition digit_char :: "nat \<Rightarrow> char" where
  "digit_char d = ''0123456789abcdef'' ! (d mod 16)"

text \<open>\<^verbatim>\<open>%08x\<close> of a 32-bit value: eight hexadecimal digits, the most significant first.\<close>

definition fmt_08x :: "u32 \<Rightarrow> string" where
  "fmt_08x w = map (\<lambda>i. digit_char (unat (drop_bit (4 * i) w AND 15))) [7, 6, 5, 4, 3, 2, 1, 0]"

fun fmt_u :: "nat \<Rightarrow> string" where
  "fmt_u n = (if n < 10 then [digit_char n] else fmt_u (n div 10) @ [digit_char (n mod 10)])"

declare fmt_u.simps [simp del]

text \<open>\<^verbatim>\<open>%d\<close> of an \<^verbatim>\<open>int\<close>.\<close>

definition fmt_d :: "int \<Rightarrow> string" where
  "fmt_d i = (if i < 0 then CHR ''-'' # fmt_u (nat (- i)) else fmt_u (nat i))"

section \<open>The stages of the AR3012 plan\<close>

definition EBUSY :: int where
  "EBUSY = 16"

text \<open>
  The two reads of \<^verbatim>\<open>ath3k_load_patch\<close> that fill \<^verbatim>\<open>pt_ver\<close>:
  \<^verbatim>\<open>*(int *)(fw.buf + fw.len - 8)\<close> and \<^verbatim>\<open>*(int *)(fw.buf + fw.len - 4)\<close>, each stored
  in an unsigned 32-bit field.
\<close>

definition read_int :: "u8 list \<Rightarrow> nat \<Rightarrow> u32" where
  "read_int bytes off = le32 (take 4 (drop off bytes))"

definition pt_rom_version :: "ath3k_firmware \<Rightarrow> u32" where
  "pt_rom_version fw = read_int (buf fw) (len fw - 8)"

definition pt_build_version :: "ath3k_firmware \<Rightarrow> u32" where
  "pt_build_version fw = read_int (buf fw) (len fw - 4)"

text \<open>
  \<^verbatim>\<open>ath3k_load_patch\<close>. The locals \<^verbatim>\<open>fw_state\<close> and \<^verbatim>\<open>fw_ver\<close> are not initialised:
  what they hold when the function starts is an argument (\<open>fw_state\<close> a byte, \<open>fw_ver\<close>
  the 16 bytes of the struct).
\<close>

definition ath3k_load_patch ::
  "hw_consts \<Rightarrow> device \<Rightarrow> filesystem \<Rightarrow> string \<Rightarrow> u8 \<Rightarrow> u8 list \<Rightarrow> event list
     \<Rightarrow> (int \<times> event list) option" where
  "ath3k_load_patch K dev fs fw_path fw_state fw_ver tr =
     (case ath3k_get_state K dev fw_state tr of
        (r, fw_state', tr1) \<Rightarrow>
          if r < 0 then Some (r, tr1)
          else if fw_state' AND ATH3K_PATCH_UPDATE K \<noteq> 0 then Some (0, tr1)
          else
            case ath3k_get_version K dev fw_ver tr1 of
              (r, fw_ver', tr2) \<Rightarrow>
                if r < 0 then Some (r, tr2)
                else
                  let name = snprintf (FILENAME_MAX K)
                        (fw_path @ ''/ar3k/AthrBT_0x''
                           @ fmt_08x (rom_version (version_of fw_ver')) @ ''.dfu'')
                  in (case ath3k_fw_read fs name tr2 of
                        (None, tr3) \<Rightarrow> Some (- 1, tr3)
                      | (Some fw, tr3) \<Rightarrow>
                          if pt_rom_version fw \<noteq> rom_version (version_of fw_ver')
                             \<or> pt_build_version fw \<le> build_version (version_of fw_ver')
                          then Some (- 1, ath3k_fw_free fw tr3)
                          else
                            (case ath3k_load_fwfile K dev fw tr3 of
                               None \<Rightarrow> None
                             | Some (r, tr4) \<Rightarrow> Some (r, ath3k_fw_free fw tr4))))"

text \<open>The \<^verbatim>\<open>switch\<close> of \<^verbatim>\<open>ath3k_load_syscfg\<close>, its cases in the order of the source.\<close>

definition clk_value_of :: "hw_consts \<Rightarrow> u32 \<Rightarrow> int" where
  "clk_value_of K rc =
     (if rc = ATH3K_XTAL_FREQ_26M K then 26
      else if rc = ATH3K_XTAL_FREQ_40M K then 40
      else if rc = ATH3K_XTAL_FREQ_19P2 K then 19
      else 0)"

definition ath3k_load_syscfg ::
  "hw_consts \<Rightarrow> device \<Rightarrow> filesystem \<Rightarrow> string \<Rightarrow> u8 \<Rightarrow> u8 list \<Rightarrow> event list
     \<Rightarrow> (int \<times> event list) option" where
  "ath3k_load_syscfg K dev fs fw_path fw_state fw_ver tr =
     (case ath3k_get_state K dev fw_state tr of
        (r, fw_state', tr1) \<Rightarrow>
          if r < 0 then Some (- EBUSY, tr1)
          else
            case ath3k_get_version K dev fw_ver tr1 of
              (r, fw_ver', tr2) \<Rightarrow>
                if r < 0 then Some (r, tr2)
                else
                  let clk_value = clk_value_of K (ref_clock (version_of fw_ver'));
                      filename = snprintf (FILENAME_MAX K)
                        (fw_path @ ''/ar3k/ramps_0x''
                           @ fmt_08x (rom_version (version_of fw_ver'))
                           @ ''_'' @ fmt_d clk_value @ ''.dfu'')
                  in (case ath3k_fw_read fs filename tr2 of
                        (None, tr3) \<Rightarrow> Some (- 1, tr3)
                      | (Some fw, tr3) \<Rightarrow>
                          (case ath3k_load_fwfile K dev fw tr3 of
                             None \<Rightarrow> None
                           | Some (r, tr4) \<Rightarrow> Some (r, ath3k_fw_free fw tr4))))"

definition ath3k_set_normal_mode ::
  "hw_consts \<Rightarrow> device \<Rightarrow> u8 \<Rightarrow> event list \<Rightarrow> int \<times> event list" where
  "ath3k_set_normal_mode K dev fw_state tr =
     (case ath3k_get_state K dev fw_state tr of
        (r, fw_state', tr1) \<Rightarrow>
          if r < 0 then (r, tr1)
          else if fw_state' AND ATH3K_MODE_MASK K = ATH3K_NORMAL_MODE K then (0, tr1)
          else
            case libusb_control_out dev (ATH3K_SET_NORMAL_MODE K) [] 0 tr1 of
              (r, tr2) \<Rightarrow>
                if r < 0 then (0, tr2)
                else ((if r = 0 then 1 else 0), tr2))"

definition ath3k_switch_pid :: "hw_consts \<Rightarrow> device \<Rightarrow> event list \<Rightarrow> int \<times> event list" where
  "ath3k_switch_pid K dev tr =
     (case libusb_control_out dev (USB_REG_SWITCH_VID_PID K) [] 0 tr of
        (r, tr') \<Rightarrow>
          if r < 0 then (0, tr')
          else ((if r = 0 then 1 else 0), tr'))"

section \<open>The two plans\<close>

text \<open>The uninitialised locals of the three stages, as the stack holds them.\<close>

record locals =
  patch_state :: u8
  patch_ver :: "u8 list"
  syscfg_state :: u8
  syscfg_ver :: "u8 list"
  normal_state :: u8

definition ath3k_init_ar3012 ::
  "hw_consts \<Rightarrow> device \<Rightarrow> filesystem \<Rightarrow> string \<Rightarrow> locals \<Rightarrow> event list
     \<Rightarrow> (int \<times> event list) option" where
  "ath3k_init_ar3012 K dev fs fw_path L tr =
     (case ath3k_load_patch K dev fs fw_path (patch_state L) (patch_ver L) tr of
        None \<Rightarrow> None
      | Some (r, tr1) \<Rightarrow>
          if r < 0 then Some (r, tr1)
          else
            (case ath3k_load_syscfg K dev fs fw_path (syscfg_state L) (syscfg_ver L) tr1 of
               None \<Rightarrow> None
             | Some (r, tr2) \<Rightarrow>
                 if r < 0 then Some (r, tr2)
                 else
                   (case ath3k_set_normal_mode K dev (normal_state L) tr2 of
                      (r, tr3) \<Rightarrow>
                        if r < 0 then Some (r, tr3)
                        else
                          (case ath3k_switch_pid K dev tr3 of
                             (_, tr4) \<Rightarrow> Some (0, tr4)))))"

definition ath3k_init_firmware ::
  "hw_consts \<Rightarrow> device \<Rightarrow> filesystem \<Rightarrow> string \<Rightarrow> event list \<Rightarrow> (int \<times> event list) option" where
  "ath3k_init_firmware K dev fs file_prefix tr =
     (let name = snprintf (FILENAME_MAX K) (file_prefix @ ''/ath3k-1.fw'')
      in case ath3k_fw_read fs name tr of
           (None, tr1) \<Rightarrow> Some (- 1, tr1)
         | (Some fw, tr1) \<Rightarrow>
             (case ath3k_load_fwfile K dev fw tr1 of
                None \<Rightarrow> None
              | Some (r, tr2) \<Rightarrow> Some (0, ath3k_fw_free fw tr2)))"

section \<open>Accepted transfers\<close>

text \<open>
  The success criterion of the transport, as the program tests it: a control transfer
  returns its length, a bulk transfer returns no error and reports all its bytes sent.
\<close>

definition accepted :: "reply \<Rightarrow> xfer \<Rightarrow> bool" where
  "accepted rp x =
     (case x of
        ControlOut q v i d \<Rightarrow> usb_ret rp = int (length d)
      | ControlIn q v i n \<Rightarrow> usb_ret rp = int n
      | BulkOut e d \<Rightarrow> 0 \<le> usb_ret rp \<and> usb_transferred rp = int (length d))"

definition accepts_all :: "device \<Rightarrow> bool" where
  "accepts_all dev = (\<forall>h x. accepted (dev (h @ [x])) x)"

section \<open>Concrete inputs\<close>

text \<open>
  One choice of the constants: the sizes and the \<open>PATCH_UPDATE\<close> bit of the spec's
  scenarios, the clock codes of the spec's data model, and some distinct request codes.
\<close>

definition example_consts :: hw_consts where
  "example_consts =
     \<lparr> FW_HDR_SIZE = 20, BULK_SIZE = 4096,
       ATH3K_DNLOAD = 1, ATH3K_GETSTATE = 5, ATH3K_GETVERSION = 9,
       ATH3K_SET_NORMAL_MODE = 7, USB_REG_SWITCH_VID_PID = 10,
       ATH3K_PATCH_UPDATE = 128, ATH3K_MODE_MASK = 63, ATH3K_NORMAL_MODE = 14,
       ATH3K_XTAL_FREQ_26M = 1, ATH3K_XTAL_FREQ_40M = 2, ATH3K_XTAL_FREQ_19P2 = 0,
       FILENAME_MAX = 1024 \<rparr>"

text \<open>
  A device that accepts every transfer and answers the state query with \<open>st\<close> and the
  version query with the bytes \<open>ver\<close>.
\<close>

definition mock_device :: "u8 \<Rightarrow> u8 list \<Rightarrow> device" where
  "mock_device st ver h =
     (case rev h of
        [] \<Rightarrow> \<lparr> usb_ret = 0, usb_data = [], usb_transferred = 0 \<rparr>
      | x # _ \<Rightarrow>
          (case x of
             ControlOut q v i d \<Rightarrow>
               \<lparr> usb_ret = int (length d), usb_data = [], usb_transferred = 0 \<rparr>
           | ControlIn q v i n \<Rightarrow>
               \<lparr> usb_ret = int n, usb_data = (if n = 1 then [st] else ver),
                 usb_transferred = 0 \<rparr>
           | BulkOut e d \<Rightarrow>
               \<lparr> usb_ret = 0, usb_data = [], usb_transferred = int (length d) \<rparr>))"

text \<open>A device on which every transfer fails with \<^verbatim>\<open>LIBUSB_ERROR_IO\<close> (\<open>-1\<close>).\<close>

definition dead_device :: device where
  "dead_device h = \<lparr> usb_ret = - 1, usb_data = [], usb_transferred = 0 \<rparr>"

text \<open>
  The device \<open>dev\<close> for its first \<open>n\<close> transfers and dead from then on, as a device
  unplugged after \<^verbatim>\<open>main\<close> has made its own two queries.
\<close>

definition dies_after :: "nat \<Rightarrow> device \<Rightarrow> device" where
  "dies_after n dev h = (if length h \<le> n then dev h else dead_device h)"

text \<open>The state and version queries of \<^verbatim>\<open>main\<close>, which precede either plan.\<close>

definition main_queries :: "event list" where
  "main_queries = [Usb (ControlIn 5 0 0 1), Usb (ControlIn 9 0 0 16)]"

text \<open>The device \<open>dev\<close>, except that every control-OUT transfer with request \<open>q\<close> fails.\<close>

definition failing_on :: "u8 \<Rightarrow> device \<Rightarrow> device" where
  "failing_on q dev h =
     (case rev h of
        ControlOut q' v i d # _ \<Rightarrow>
          if q' = q then \<lparr> usb_ret = - 1, usb_data = [], usb_transferred = 0 \<rparr> else dev h
      | _ \<Rightarrow> dev h)"

text \<open>Version records: ROM \<open>0x300\<close>, build 5, with clock code 1 and with the unknown code 7.\<close>

definition example_version :: "u8 list" where
  "example_version = [0, 3, 0, 0,  5, 0, 0, 0,  0, 0, 0, 0,  1, 0, 0, 0]"

definition odd_clock_version :: "u8 list" where
  "odd_clock_version = [0, 3, 0, 0,  5, 0, 0, 0,  0, 0, 0, 0,  7, 0, 0, 0]"

text \<open>Patch blobs of 30 bytes whose trailers say ROM \<open>0x300\<close>, build 6 and build 5.\<close>

definition newer_patch :: "u8 list" where
  "newer_patch = replicate 22 170 @ [0, 3, 0, 0,  6, 0, 0, 0]"

definition same_build_patch :: "u8 list" where
  "same_build_patch = replicate 22 170 @ [0, 3, 0, 0,  5, 0, 0, 0]"

definition example_fs :: "u8 list \<Rightarrow> filesystem" where
  "example_fs patch name =
     (if name = ''/fw/ath3k-1.fw'' then Some (replicate 5000 85)
      else if name = ''/fw/ar3k/AthrBT_0x00000300.dfu'' then Some patch
      else if name = ''/fw/ar3k/ramps_0x00000300_26.dfu'' then Some (replicate 40 51)
      else None)"

definition example_locals :: locals where
  "example_locals =
     \<lparr> patch_state = 0, patch_ver = replicate 16 0,
       syscfg_state = 0, syscfg_ver = replicate 16 0, normal_state = 0 \<rparr>"

section \<open>Lemmas about the upload loop\<close>

text \<open>Ceiling division, one chunk at a time.\<close>

lemma ceil_div_step:
  assumes "0 < (B::nat)" "0 < count"
  shows "Suc ((count - min count B + B - 1) div B) = (count + B - 1) div B"
proof -
  have shift: "(count + B - 1) div B = Suc ((count - 1) div B)"
  proof -
    have e: "count + B - 1 = (count - 1) + B" using assms by simp
    have "B \<noteq> 0" using assms by simp
    then have "((count - 1) + B) div B = (count - 1) div B + 1" by (rule div_add_self2)
    then show ?thesis by (simp only: e Suc_eq_plus1)
  qed
  show ?thesis
  proof (cases "count \<le> B")
    case True
    then have "count - min count B + B - 1 = B - 1" by simp
    moreover have "(B - 1) div B = 0" using assms by simp
    moreover have "(count - 1) div B = 0" using True assms by simp
    ultimately show ?thesis using shift by simp
  next
    case False
    then have "count - min count B + B - 1 = count - 1" by simp
    then show ?thesis using shift by simp
  qed
qed

lemma loop_step_fail:
  assumes "count \<noteq> 0"
    and "usb_ret (dev (usb_of tr @ [BulkOut 2 (take (min count (BULK_SIZE K)) (drop sent (buf fw)))])) < 0
       \<or> usb_transferred (dev (usb_of tr @ [BulkOut 2 (take (min count (BULK_SIZE K)) (drop sent (buf fw)))]))
            \<noteq> int (min count (BULK_SIZE K))"
  shows "ath3k_load_fwfile_loop K dev fw sent count tr
           = Some (- 1, tr @ [Usb (BulkOut 2 (take (min count (BULK_SIZE K)) (drop sent (buf fw))))])"
  using assms
  by (subst ath3k_load_fwfile_loop.simps) (auto simp: libusb_bulk_transfer_def Let_def)

lemma loop_step_ok:
  assumes "count \<noteq> 0"
    and "\<not> (usb_ret (dev (usb_of tr @ [BulkOut 2 (take (min count (BULK_SIZE K)) (drop sent (buf fw)))])) < 0
       \<or> usb_transferred (dev (usb_of tr @ [BulkOut 2 (take (min count (BULK_SIZE K)) (drop sent (buf fw)))]))
            \<noteq> int (min count (BULK_SIZE K)))"
  shows "ath3k_load_fwfile_loop K dev fw sent count tr
           = ath3k_load_fwfile_loop K dev fw (sent + min count (BULK_SIZE K)) (count - min count (BULK_SIZE K))
               (tr @ [Usb (BulkOut 2 (take (min count (BULK_SIZE K)) (drop sent (buf fw))))])"
  using assms
  by (subst ath3k_load_fwfile_loop.simps) (auto simp: libusb_bulk_transfer_def Let_def)

lemma loop_run:
  assumes B: "0 < BULK_SIZE K"
  shows "\<exists>r cs. ath3k_load_fwfile_loop K dev fw sent count tr
            = Some (r, tr @ map (\<lambda>c. Usb (BulkOut 2 c)) cs)
          \<and> (r = 0 \<or> r = - 1)
          \<and> list_all (\<lambda>c. length c \<le> BULK_SIZE K) cs
          \<and> (r = 0 \<longrightarrow> concat cs = take count (drop sent (buf fw))
                \<and> length cs = (count + BULK_SIZE K - 1) div BULK_SIZE K)"
proof (induction count arbitrary: sent tr rule: less_induct)
  case (less count)
  show ?case
  proof (cases "count = 0")
    case True
    have "ath3k_load_fwfile_loop K dev fw sent count tr = Some (0, tr @ map (\<lambda>c. Usb (BulkOut 2 c)) [])"
      using True by (subst ath3k_load_fwfile_loop.simps) simp
    moreover have "(count + BULK_SIZE K - 1) div BULK_SIZE K = 0" using True B by simp
    ultimately show ?thesis using True by (intro exI [of _ 0] exI [of _ "[]"]) simp
  next
    case False
    define sz where "sz = min count (BULK_SIZE K)"
    define c where "c = take sz (drop sent (buf fw))"
    define rp where "rp = dev (usb_of tr @ [BulkOut 2 c])"
    have szpos: "0 < sz" using False B by (simp add: sz_def)
    have clen: "length c \<le> BULK_SIZE K" by (simp add: c_def sz_def)
    show ?thesis
    proof (cases "usb_ret rp < 0 \<or> usb_transferred rp \<noteq> int sz")
      case True
      have "ath3k_load_fwfile_loop K dev fw sent count tr = Some (- 1, tr @ map (\<lambda>c. Usb (BulkOut 2 c)) [c])"
        using loop_step_fail [OF False, of dev tr K sent fw] True
        by (simp add: sz_def c_def rp_def)
      then show ?thesis using clen by (intro exI [of _ "- 1"] exI [of _ "[c]"]) simp
    next
      case ok: False
      have step: "ath3k_load_fwfile_loop K dev fw sent count tr
          = ath3k_load_fwfile_loop K dev fw (sent + sz) (count - sz) (tr @ [Usb (BulkOut 2 c)])"
        using loop_step_ok [OF False, of dev tr K sent fw] ok
        by (simp add: sz_def c_def rp_def)
      have "count - sz < count" using szpos False by simp
      from less.IH [OF this, of "sent + sz" "tr @ [Usb (BulkOut 2 c)]"]
      obtain r cs where run: "ath3k_load_fwfile_loop K dev fw (sent + sz) (count - sz) (tr @ [Usb (BulkOut 2 c)])
            = Some (r, (tr @ [Usb (BulkOut 2 c)]) @ map (\<lambda>c. Usb (BulkOut 2 c)) cs)"
        and r: "r = 0 \<or> r = - 1"
        and lens: "list_all (\<lambda>c. length c \<le> BULK_SIZE K) cs"
        and full: "r = 0 \<longrightarrow> concat cs = take (count - sz) (drop (sent + sz) (buf fw))
                \<and> length cs = (count - sz + BULK_SIZE K - 1) div BULK_SIZE K"
        by blast
      have cat: "c @ take (count - sz) (drop (sent + sz) (buf fw)) = take count (drop sent (buf fw))"
      proof -
        have "count = sz + (count - sz)" by (simp add: sz_def)
        then have "take count (drop sent (buf fw))
            = take sz (drop sent (buf fw)) @ take (count - sz) (drop sz (drop sent (buf fw)))"
          by (metis take_add)
        then show ?thesis by (simp add: c_def add.commute)
      qed
      have cnt: "Suc ((count - sz + BULK_SIZE K - 1) div BULK_SIZE K) = (count + BULK_SIZE K - 1) div BULK_SIZE K"
        using ceil_div_step [OF B, of count] False by (simp add: sz_def)
      have "ath3k_load_fwfile_loop K dev fw sent count tr
            = Some (r, tr @ map (\<lambda>c. Usb (BulkOut 2 c)) (c # cs))"
        using step run by simp
      moreover have "list_all (\<lambda>c. length c \<le> BULK_SIZE K) (c # cs)" using lens clen by simp
      moreover have "r = 0 \<longrightarrow> concat (c # cs) = take count (drop sent (buf fw))
                \<and> length (c # cs) = (count + BULK_SIZE K - 1) div BULK_SIZE K"
        using full cat cnt by simp
      ultimately show ?thesis using r by blast
    qed
  qed
qed

lemma loop_accepted:
  assumes B: "0 < BULK_SIZE K" and acc: "accepts_all dev"
  shows "sent + count \<le> length (buf fw)
           \<Longrightarrow> \<exists>tr'. ath3k_load_fwfile_loop K dev fw sent count tr = Some (0, tr')"
proof (induction count arbitrary: sent tr rule: less_induct)
  case (less count)
  show ?case
  proof (cases "count = 0")
    case True
    then show ?thesis by (subst ath3k_load_fwfile_loop.simps) simp
  next
    case False
    define sz where "sz = min count (BULK_SIZE K)"
    define c where "c = take sz (drop sent (buf fw))"
    have szpos: "0 < sz" using False B by (simp add: sz_def)
    have "sent + sz \<le> length (buf fw)" using less.prems by (simp add: sz_def)
    then have clen: "length c = sz" by (simp add: c_def)
    have "accepted (dev (usb_of tr @ [BulkOut 2 c])) (BulkOut 2 c)"
      using acc by (simp add: accepts_all_def)
    then have ok: "\<not> (usb_ret (dev (usb_of tr @ [BulkOut 2 c])) < 0
        \<or> usb_transferred (dev (usb_of tr @ [BulkOut 2 c])) \<noteq> int sz)"
      by (simp add: accepted_def clen)
    have step: "ath3k_load_fwfile_loop K dev fw sent count tr
        = ath3k_load_fwfile_loop K dev fw (sent + sz) (count - sz) (tr @ [Usb (BulkOut 2 c)])"
      using loop_step_ok [OF False, of dev tr K sent fw] ok
      by (simp add: sz_def c_def)
    have smaller: "count - sz < count" using szpos False by simp
    have inside: "(sent + sz) + (count - sz) \<le> length (buf fw)"
      using less.prems by (simp add: sz_def)
    from less.IH [OF smaller inside] step show ?thesis by simp
  qed
qed

lemma usb_of_append [simp]: "usb_of (xs @ ys) = usb_of xs @ usb_of ys"
  by (induction xs rule: usb_of.induct) simp_all

lemma load_fwfile_emits:
  assumes B: "0 < BULK_SIZE K"
  shows "\<exists>r d cs. ath3k_load_fwfile K dev fw tr
            = Some (r, tr @ Usb (ControlOut (ATH3K_DNLOAD K) 0 0 d) # map (\<lambda>c. Usb (BulkOut 2 c)) cs)"
proof -
  define h where "h = min (len fw) (FW_HDR_SIZE K)"
  define x where "x = ControlOut (ATH3K_DNLOAD K) 0 0 (take (h mod 65536) (buf fw))"
  have ctl: "libusb_control_out dev (ATH3K_DNLOAD K) (drop 0 (buf fw)) h tr
      = (usb_ret (dev (usb_of tr @ [x])), tr @ [Usb x])"
    by (simp add: libusb_control_out_def Let_def x_def)
  show ?thesis
  proof (cases "usb_ret (dev (usb_of tr @ [x])) = int h")
    case False
    then have "ath3k_load_fwfile K dev fw tr = Some (- 1, tr @ Usb x # map (\<lambda>c. Usb (BulkOut 2 c)) [])"
      using ctl by (simp add: ath3k_load_fwfile_def Let_def h_def [symmetric])
    then show ?thesis unfolding x_def by blast
  next
    case True
    then have run: "ath3k_load_fwfile K dev fw tr
        = ath3k_load_fwfile_loop K dev fw h (len fw - h) (tr @ [Usb x])"
      using ctl by (simp add: ath3k_load_fwfile_def Let_def h_def [symmetric])
    from loop_run [OF B, of dev fw h "len fw - h" "tr @ [Usb x]"]
    obtain r cs where "ath3k_load_fwfile_loop K dev fw h (len fw - h) (tr @ [Usb x])
            = Some (r, (tr @ [Usb x]) @ map (\<lambda>c. Usb (BulkOut 2 c)) cs)"
      by blast
    then have "ath3k_load_fwfile K dev fw tr = Some (r, tr @ Usb x # map (\<lambda>c. Usb (BulkOut 2 c)) cs)"
      using run by simp
    then show ?thesis unfolding x_def by blast
  qed
qed

section \<open>Lemmas about the queries, the file names and the stages\<close>

lemma get_state_result:
  assumes "ath3k_get_state K dev state tr = (r, st, tr1)"
  shows "(r = 0 \<or> r = 1) \<and> tr1 = tr @ [Usb (ControlIn (ATH3K_GETSTATE K) 0 0 1)]"
  using assms
  by (auto simp: ath3k_get_state_def libusb_control_in_def Let_def split: if_splits)

lemma get_version_result:
  assumes "ath3k_get_version K dev version tr = (r, vb, tr1)"
  shows "(r = 0 \<or> r = 1) \<and> tr1 = tr @ [Usb (ControlIn (ATH3K_GETVERSION K) 0 0 16)]"
  using assms
  by (auto simp: ath3k_get_version_def libusb_control_in_def Let_def sizeof_ath3k_version_def
      split: if_splits)

lemma fw_read_trace:
  assumes "ath3k_fw_read fs name tr = (res, tr')"
  shows "tr' = tr @ [FwRead name]"
  using assms by (auto simp: ath3k_fw_read_def split: option.splits if_splits)

lemma set_normal_mode_result:
  assumes "ath3k_set_normal_mode K dev fw_state tr = (r, tr')"
  shows "r = 0 \<or> r = 1"
  using assms
  by (auto simp: ath3k_set_normal_mode_def ath3k_get_state_def libusb_control_in_def
      libusb_control_out_def Let_def split: if_splits)

lemma switch_pid_trace:
  "snd (ath3k_switch_pid K dev tr) = tr @ [Usb (ControlOut (USB_REG_SWITCH_VID_PID K) 0 0 [])]"
  by (simp add: ath3k_switch_pid_def libusb_control_out_def Let_def)

lemma init_ar3012_stage_N:
  assumes "ath3k_load_patch K dev fs p (patch_state L) (patch_ver L) tr = Some (r1, tr1)"
    and "0 \<le> r1"
    and "ath3k_load_syscfg K dev fs p (syscfg_state L) (syscfg_ver L) tr1 = Some (r2, tr2)"
    and "0 \<le> r2"
  shows "ath3k_init_ar3012 K dev fs p L tr
           = Some (0, snd (ath3k_switch_pid K dev
                        (snd (ath3k_set_normal_mode K dev (normal_state L) tr2))))"
proof -
  obtain r3 tr3 where nm: "ath3k_set_normal_mode K dev (normal_state L) tr2 = (r3, tr3)"
    by (cases "ath3k_set_normal_mode K dev (normal_state L) tr2")
  from set_normal_mode_result [OF nm] have "\<not> r3 < 0" by auto
  then show ?thesis
    using assms nm by (simp add: ath3k_init_ar3012_def split: prod.splits)
qed

lemma length_fmt_08x: "length (fmt_08x w) = 8"
  by (simp add: fmt_08x_def)

lemma clk_value_of_cases:
  "clk_value_of K rc = 26 \<or> clk_value_of K rc = 40 \<or> clk_value_of K rc = 19 \<or> clk_value_of K rc = 0"
  by (simp add: clk_value_of_def)

lemma fmt_d_clock: "fmt_d 26 = ''26''" "fmt_d 40 = ''40''" "fmt_d 19 = ''19''" "fmt_d 0 = ''0''"
  by (simp_all add: fmt_d_def fmt_u.simps digit_char_def)

lemma length_fmt_d_clk: "length (fmt_d (clk_value_of K rc)) \<le> 2"
  using clk_value_of_cases [of K rc] by (auto simp: fmt_d_clock)

lemma snprintf_fits: "length s < n \<Longrightarrow> snprintf n s = s"
  by (simp add: snprintf_def)

section \<open>Runs on the example devices\<close>

lemma fmt_08x_example: "fmt_08x 768 = ''00000300''"
  by (simp add: fmt_08x_def digit_char_def drop_bit_eq_div)

lemma example_version_fields:
  "rom_version (version_of example_version) = 768"
  "build_version (version_of example_version) = 5"
  "ref_clock (version_of example_version) = 1"
  by (simp_all add: version_of_def example_version_def)

lemma odd_clock_version_fields:
  "rom_version (version_of odd_clock_version) = 768"
  "ref_clock (version_of odd_clock_version) = 7"
  by (simp_all add: version_of_def odd_clock_version_def)

lemma example_patch_versions:
  "pt_rom_version \<lparr> fwname = n, buf = newer_patch \<rparr> = 768"
  "pt_build_version \<lparr> fwname = n, buf = newer_patch \<rparr> = 6"
  "pt_rom_version \<lparr> fwname = n, buf = same_build_patch \<rparr> = 768"
  "pt_build_version \<lparr> fwname = n, buf = same_build_patch \<rparr> = 5"
  by (simp_all add: pt_rom_version_def pt_build_version_def read_int_def len_def
      newer_patch_def same_build_patch_def)

lemma example_patch_read:
  "length patch = 30 \<Longrightarrow>
   ath3k_fw_read (example_fs patch)
       (snprintf (FILENAME_MAX example_consts)
          (''/fw'' @ ''/ar3k/AthrBT_0x'' @ fmt_08x (rom_version (version_of example_version)) @ ''.dfu''))
       tr
     = (Some \<lparr> fwname = ''/fw/ar3k/AthrBT_0x00000300.dfu'', buf = patch \<rparr>,
        tr @ [FwRead ''/fw/ar3k/AthrBT_0x00000300.dfu''])"
  by (simp add: ath3k_fw_read_def example_fs_def snprintf_def example_consts_def
      example_version_fields fmt_08x_example)

lemma mock_get_state:
  "ath3k_get_state K (failing_on q (mock_device st ver)) s tr
     = (1, st, tr @ [Usb (ControlIn (ATH3K_GETSTATE K) 0 0 1)])"
  by (simp add: ath3k_get_state_def libusb_control_in_def Let_def failing_on_def mock_device_def)

lemma mock_get_version:
  "length ver = 16 \<Longrightarrow> length v = 16 \<Longrightarrow>
   ath3k_get_version K (failing_on q (mock_device st ver)) v tr
     = (1, ver, tr @ [Usb (ControlIn (ATH3K_GETVERSION K) 0 0 16)])"
  by (simp add: ath3k_get_version_def libusb_control_in_def Let_def failing_on_def mock_device_def
      sizeof_ath3k_version_def)

lemma mock_upload_40:
  "q \<noteq> 1 \<Longrightarrow>
   ath3k_load_fwfile example_consts (failing_on q (mock_device st ver))
       \<lparr> fwname = n, buf = replicate 40 b \<rparr> tr
     = Some (0, tr @ [Usb (ControlOut 1 0 0 (replicate 20 b)), Usb (BulkOut 2 (replicate 20 b))])"
  by (simp add: ath3k_load_fwfile_def libusb_control_out_def libusb_bulk_transfer_def Let_def
      len_def example_consts_def failing_on_def mock_device_def ath3k_load_fwfile_loop.simps)

lemma mock_upload_newer_patch:
  "q \<noteq> 1 \<Longrightarrow>
   ath3k_load_fwfile example_consts (failing_on q (mock_device st ver))
       \<lparr> fwname = n, buf = newer_patch \<rparr> tr
     = Some (0, tr @ [Usb (ControlOut 1 0 0 (replicate 20 170)),
                      Usb (BulkOut 2 [170, 170, 0, 3, 0, 0, 6, 0, 0, 0])])"
  by (simp add: ath3k_load_fwfile_def libusb_control_out_def libusb_bulk_transfer_def Let_def
      len_def example_consts_def failing_on_def mock_device_def ath3k_load_fwfile_loop.simps
      newer_patch_def numeral_2_eq_2)

lemma mock_load_syscfg:
  assumes "q \<noteq> 1" "length v = 16"
  shows "ath3k_load_syscfg example_consts (failing_on q (mock_device st example_version))
       (example_fs patch) ''/fw'' s v tr
     = Some (0, tr @ [Usb (ControlIn 5 0 0 1), Usb (ControlIn 9 0 0 16),
         FwRead ''/fw/ar3k/ramps_0x00000300_26.dfu'',
         Usb (ControlOut 1 0 0 (replicate 20 51)), Usb (BulkOut 2 (replicate 20 51)),
         FwFree ''/fw/ar3k/ramps_0x00000300_26.dfu''])"
proof -
  have l: "length example_version = 16" by (simp add: example_version_def)
  have K: "ATH3K_GETSTATE example_consts = 5" "ATH3K_GETVERSION example_consts = 9"
    "FILENAME_MAX example_consts = 1024"
    by (simp_all add: example_consts_def)
  have clk: "clk_value_of example_consts 1 = 26"
    by (simp add: clk_value_of_def example_consts_def)
  show ?thesis
    by (simp add: ath3k_load_syscfg_def mock_get_state mock_get_version [OF l assms(2)] K clk
        example_version_fields fmt_08x_example fmt_d_clock snprintf_def Let_def
        ath3k_fw_read_def example_fs_def ath3k_fw_free_def mock_upload_40 [OF assms(1)])
qed

lemma mock_load_patch_skip:
  "ath3k_load_patch example_consts (failing_on q (mock_device 142 ver)) fs p s v tr
     = Some (0, tr @ [Usb (ControlIn 5 0 0 1)])"
  by (simp add: ath3k_load_patch_def mock_get_state example_consts_def)

lemma mock_set_normal_mode_skip:
  "ath3k_set_normal_mode example_consts (failing_on q (mock_device 142 ver)) s tr
     = (0, tr @ [Usb (ControlIn 5 0 0 1)])"
  by (simp add: ath3k_set_normal_mode_def mock_get_state example_consts_def)

lemma failing_switch_pid:
  "ath3k_switch_pid example_consts (failing_on 10 dev) tr = (0, tr @ [Usb (ControlOut 10 0 0 [])])"
  by (simp add: ath3k_switch_pid_def libusb_control_out_def failing_on_def example_consts_def)

lemma unplugged_get_state:
  "ath3k_get_state example_consts (dies_after 2 dev) s (main_queries @ tr)
     = (0, s, main_queries @ tr @ [Usb (ControlIn 5 0 0 1)])"
  by (simp add: ath3k_get_state_def libusb_control_in_def Let_def dies_after_def dead_device_def
      example_consts_def main_queries_def)

lemma unplugged_get_version:
  "ath3k_get_version example_consts (dies_after 2 dev) v (main_queries @ tr)
     = (0, v, main_queries @ tr @ [Usb (ControlIn 9 0 0 16)])"
  by (simp add: ath3k_get_version_def libusb_control_in_def Let_def dies_after_def dead_device_def
      example_consts_def main_queries_def sizeof_ath3k_version_def)

lemma zero_version_fields:
  "rom_version (version_of (replicate 16 0)) = 0" "ref_clock (version_of (replicate 16 0)) = 0"
  by (simp_all add: version_of_def eval_nat_numeral)

lemma fmt_08x_zero: "fmt_08x 0 = ''00000000''"
  by (simp add: fmt_08x_def digit_char_def)

section \<open>The claims\<close>

subsection \<open>C1: the transfers of an upload\<close>

text \<open>
  C1. For every blob (in particular every blob of at least 8 bytes), whatever the device
  answers, \<open>ath3k_load_fwfile\<close> returns, and what it emits starts with exactly one control-OUT
  \<open>DNLOAD\<close> transfer carrying the first \<open>min (len fw) FW_HDR_SIZE\<close> bytes of the blob,
  followed by bulk-OUT transfers to endpoint \<open>0x02\<close> only, each of at most \<open>BULK_SIZE\<close>
  bytes. When the upload succeeds (it returns 0, which it does on every device that accepts
  each transfer), there are exactly \<open>\<lceil>(len fw - header) / BULK_SIZE\<rceil>\<close> bulk transfers and
  their concatenation is the rest of the blob, in order. The constants are those of the
  device: \<open>BULK_SIZE\<close> is positive and \<open>FW_HDR_SIZE\<close> fits the 16-bit length of a control
  transfer.
\<close>

theorem upload_transfers:
  assumes B: "0 < BULK_SIZE K" and H: "FW_HDR_SIZE K < 65536"
  shows "\<exists>r cs. ath3k_load_fwfile K dev fw tr
            = Some (r, tr @ Usb (ControlOut (ATH3K_DNLOAD K) 0 0
                                  (take (min (len fw) (FW_HDR_SIZE K)) (buf fw)))
                          # map (\<lambda>c. Usb (BulkOut 2 c)) cs)
          \<and> list_all (\<lambda>c. length c \<le> BULK_SIZE K) cs
          \<and> (r = 0 \<longrightarrow>
                length cs = (len fw - min (len fw) (FW_HDR_SIZE K) + BULK_SIZE K - 1) div BULK_SIZE K
              \<and> concat cs = drop (min (len fw) (FW_HDR_SIZE K)) (buf fw))
          \<and> (accepts_all dev \<longrightarrow> r = 0)"
proof -
  define h where "h = min (len fw) (FW_HDR_SIZE K)"
  define x where "x = ControlOut (ATH3K_DNLOAD K) 0 0 (take h (buf fw))"
  have hmod: "h mod 65536 = h" using H by (simp add: h_def)
  have hlen: "length (take h (buf fw)) = h" by (simp add: h_def len_def)
  have ctl: "libusb_control_out dev (ATH3K_DNLOAD K) (drop 0 (buf fw)) h tr
      = (usb_ret (dev (usb_of tr @ [x])), tr @ [Usb x])"
    by (simp add: libusb_control_out_def Let_def hmod x_def)
  show ?thesis
  proof (cases "usb_ret (dev (usb_of tr @ [x])) = int h")
    case False
    then have "ath3k_load_fwfile K dev fw tr = Some (- 1, tr @ Usb x # map (\<lambda>c. Usb (BulkOut 2 c)) [])"
      using ctl by (simp add: ath3k_load_fwfile_def Let_def h_def [symmetric])
    moreover have "\<not> accepts_all dev"
    proof
      assume "accepts_all dev"
      then have "accepted (dev (usb_of tr @ [x])) x" by (simp add: accepts_all_def)
      then show False using False hlen by (simp add: accepted_def x_def)
    qed
    ultimately show ?thesis
      unfolding h_def [symmetric] x_def [symmetric]
      by (intro exI [of _ "- 1"] exI [of _ "[]"]) simp
  next
    case True
    then have run: "ath3k_load_fwfile K dev fw tr
        = ath3k_load_fwfile_loop K dev fw h (len fw - h) (tr @ [Usb x])"
      using ctl by (simp add: ath3k_load_fwfile_def Let_def h_def [symmetric])
    from loop_run [OF B, of dev fw h "len fw - h" "tr @ [Usb x]"]
    obtain r cs where res: "ath3k_load_fwfile_loop K dev fw h (len fw - h) (tr @ [Usb x])
            = Some (r, (tr @ [Usb x]) @ map (\<lambda>c. Usb (BulkOut 2 c)) cs)"
      and lens: "list_all (\<lambda>c. length c \<le> BULK_SIZE K) cs"
      and full: "r = 0 \<longrightarrow> concat cs = take (len fw - h) (drop h (buf fw))
                \<and> length cs = (len fw - h + BULK_SIZE K - 1) div BULK_SIZE K"
      by blast
    have whole: "take (len fw - h) (drop h (buf fw)) = drop h (buf fw)"
      by (simp add: len_def)
    have acc: "accepts_all dev \<longrightarrow> r = 0"
    proof
      assume a: "accepts_all dev"
      have "h + (len fw - h) \<le> length (buf fw)" by (simp add: h_def len_def)
      from loop_accepted [OF B a this, of "tr @ [Usb x]"] res show "r = 0" by simp
    qed
    have "ath3k_load_fwfile K dev fw tr = Some (r, tr @ Usb x # map (\<lambda>c. Usb (BulkOut 2 c)) cs)"
      using run res by simp
    then show ?thesis
      using lens full whole acc
      unfolding h_def [symmetric] x_def [symmetric]
      by (intro exI [of _ r] exI [of _ cs]) simp
  qed
qed

text \<open>
  The legacy image of 5000 bytes on an accepting device, with a header of 20 bytes and
  chunks of 4096: the upload succeeds with two bulk transfers that carry the other 4980 bytes.
\<close>

theorem upload_transfers_witness:
  "0 < BULK_SIZE example_consts \<and> FW_HDR_SIZE example_consts < 65536
   \<and> (\<exists>cs. ath3k_load_fwfile example_consts (mock_device 0 example_version)
              \<lparr> fwname = ''/fw/ath3k-1.fw'', buf = replicate 5000 85 \<rparr> []
            = Some (0, Usb (ControlOut 1 0 0 (replicate 20 85)) # map (\<lambda>c. Usb (BulkOut 2 c)) cs)
          \<and> list_all (\<lambda>c. length c \<le> 4096) cs
          \<and> length cs = 2
          \<and> concat cs = replicate 4980 85)"
proof -
  have acc: "accepts_all (mock_device 0 example_version)"
    by (simp add: accepts_all_def accepted_def mock_device_def split: xfer.splits)
  have B: "0 < BULK_SIZE example_consts" and H: "FW_HDR_SIZE example_consts < 65536"
    by (simp_all add: example_consts_def)
  from upload_transfers [OF B H, of "mock_device 0 example_version"
      "\<lparr> fwname = ''/fw/ath3k-1.fw'', buf = replicate 5000 85 \<rparr>" "[]"] acc
  show ?thesis
    by (auto simp: example_consts_def len_def)
qed

subsection \<open>C2: patch acceptance\<close>

text \<open>
  C2. In \<open>ath3k_load_patch\<close>, once the patch file has been read (the state byte has no
  \<open>PATCH_UPDATE\<close> bit and \<open>ath3k_fw_read\<close> succeeded), for all versions of the patch and
  of the device: the stage returns with the blob freed, and a \<open>DNLOAD\<close> transfer is issued
  if and only if the patch's ROM version equals the device's and the patch's build version
  is greater than the device's. When that holds the stage is the upload of the blob; when
  it fails (equal builds included) the stage returns \<open>-1\<close> and between reading the file and
  freeing the blob it does nothing.
\<close>

theorem patch_acceptance:
  assumes B: "0 < BULK_SIZE K"
    and gs: "ath3k_get_state K dev fw_state tr = (r1, st, tr1)"
    and clear: "st AND ATH3K_PATCH_UPDATE K = 0"
    and gv: "ath3k_get_version K dev fw_ver tr1 = (r2, vb, tr2)"
    and rd: "ath3k_fw_read fs
               (snprintf (FILENAME_MAX K)
                  (fw_path @ ''/ar3k/AthrBT_0x'' @ fmt_08x (rom_version (version_of vb)) @ ''.dfu''))
               tr2 = (Some fw, tr3)"
  shows "\<exists>r evs. ath3k_load_patch K dev fs fw_path fw_state fw_ver tr
             = Some (r, tr3 @ evs @ [FwFree (fwname fw)])
          \<and> ((\<exists>d. Usb (ControlOut (ATH3K_DNLOAD K) 0 0 d) \<in> set evs)
               = (pt_rom_version fw = rom_version (version_of vb)
                  \<and> build_version (version_of vb) < pt_build_version fw))
          \<and> (pt_rom_version fw = rom_version (version_of vb)
                \<and> build_version (version_of vb) < pt_build_version fw
              \<longrightarrow> ath3k_load_fwfile K dev fw tr3 = Some (r, tr3 @ evs))
          \<and> (\<not> (pt_rom_version fw = rom_version (version_of vb)
                   \<and> build_version (version_of vb) < pt_build_version fw)
              \<longrightarrow> r = - 1 \<and> evs = [])"
proof -
  from get_state_result [OF gs] have r1: "\<not> r1 < 0" by auto
  from get_version_result [OF gv] have r2: "\<not> r2 < 0" by auto
  let ?ok = "pt_rom_version fw = rom_version (version_of vb)
               \<and> build_version (version_of vb) < pt_build_version fw"
  show ?thesis
  proof (cases ?ok)
    case False
    then have "ath3k_load_patch K dev fs fw_path fw_state fw_ver tr
        = Some (- 1, tr3 @ [] @ [FwFree (fwname fw)])"
      using gs clear gv rd r1 r2
      by (auto simp: ath3k_load_patch_def Let_def ath3k_fw_free_def not_less)
    then show ?thesis using False by (intro exI [of _ "- 1"] exI [of _ "[]"]) auto
  next
    case True
    from load_fwfile_emits [OF B, of dev fw tr3]
    obtain r d cs where up: "ath3k_load_fwfile K dev fw tr3
        = Some (r, tr3 @ Usb (ControlOut (ATH3K_DNLOAD K) 0 0 d) # map (\<lambda>c. Usb (BulkOut 2 c)) cs)"
      by blast
    let ?evs = "Usb (ControlOut (ATH3K_DNLOAD K) 0 0 d) # map (\<lambda>c. Usb (BulkOut 2 c)) cs"
    have "ath3k_load_patch K dev fs fw_path fw_state fw_ver tr
        = Some (r, tr3 @ ?evs @ [FwFree (fwname fw)])"
      using gs clear gv rd r1 r2 True up
      by (auto simp: ath3k_load_patch_def Let_def ath3k_fw_free_def not_le)
    moreover have "\<exists>d. Usb (ControlOut (ATH3K_DNLOAD K) 0 0 d) \<in> set ?evs" by auto
    ultimately show ?thesis using True up
      by (intro exI [of _ r] exI [of _ ?evs]) simp
  qed
qed

text \<open>
  The device reports ROM \<open>0x300\<close>, build 5. A patch for build 5 is refused with \<open>-1\<close>, the
  blob freed and nothing sent; a patch for build 6 is uploaded.
\<close>

theorem patch_acceptance_witness:
  "ath3k_load_patch example_consts (failing_on 10 (mock_device 0 example_version))
       (example_fs same_build_patch) ''/fw'' 0 (replicate 16 0) []
     = Some (- 1, [Usb (ControlIn 5 0 0 1), Usb (ControlIn 9 0 0 16),
                   FwRead ''/fw/ar3k/AthrBT_0x00000300.dfu'',
                   FwFree ''/fw/ar3k/AthrBT_0x00000300.dfu''])
   \<and> ath3k_load_patch example_consts (failing_on 10 (mock_device 0 example_version))
       (example_fs newer_patch) ''/fw'' 0 (replicate 16 0) []
     = Some (0, [Usb (ControlIn 5 0 0 1), Usb (ControlIn 9 0 0 16),
                 FwRead ''/fw/ar3k/AthrBT_0x00000300.dfu'',
                 Usb (ControlOut 1 0 0 (replicate 20 170)),
                 Usb (BulkOut 2 [170, 170, 0, 3, 0, 0, 6, 0, 0, 0]),
                 FwFree ''/fw/ar3k/AthrBT_0x00000300.dfu''])"
proof -
  let ?dev = "failing_on 10 (mock_device 0 example_version)"
  let ?n = "''/fw/ar3k/AthrBT_0x00000300.dfu''"
  let ?tr1 = "[Usb (ControlIn 5 0 0 1)]"
  let ?tr2 = "[Usb (ControlIn 5 0 0 1), Usb (ControlIn 9 0 0 16)]"
  let ?tr3 = "[Usb (ControlIn 5 0 0 1), Usb (ControlIn 9 0 0 16), FwRead ?n]"
  have B: "0 < BULK_SIZE example_consts" by (simp add: example_consts_def)
  have gs: "ath3k_get_state example_consts ?dev 0 [] = (1, 0, ?tr1)"
    using mock_get_state [of example_consts 10 0 example_version 0 "[]"]
    by (simp add: example_consts_def)
  have clear: "(0 :: u8) AND ATH3K_PATCH_UPDATE example_consts = 0" by simp
  have gv: "ath3k_get_version example_consts ?dev (replicate 16 0) ?tr1 = (1, example_version, ?tr2)"
    using mock_get_version [of example_version "replicate 16 0" example_consts 10 0 ?tr1]
    by (simp add: example_consts_def example_version_def)
  have rd_same: "ath3k_fw_read (example_fs same_build_patch)
       (snprintf (FILENAME_MAX example_consts)
          (''/fw'' @ ''/ar3k/AthrBT_0x'' @ fmt_08x (rom_version (version_of example_version)) @ ''.dfu''))
       ?tr2 = (Some \<lparr> fwname = ?n, buf = same_build_patch \<rparr>, ?tr3)"
    using example_patch_read [of same_build_patch ?tr2] by (simp add: same_build_patch_def)
  have rd_newer: "ath3k_fw_read (example_fs newer_patch)
       (snprintf (FILENAME_MAX example_consts)
          (''/fw'' @ ''/ar3k/AthrBT_0x'' @ fmt_08x (rom_version (version_of example_version)) @ ''.dfu''))
       ?tr2 = (Some \<lparr> fwname = ?n, buf = newer_patch \<rparr>, ?tr3)"
    using example_patch_read [of newer_patch ?tr2] by (simp add: newer_patch_def)
  have up: "ath3k_load_fwfile example_consts ?dev \<lparr> fwname = ?n, buf = newer_patch \<rparr> ?tr3
     = Some (0, ?tr3 @ [Usb (ControlOut 1 0 0 (replicate 20 170)),
                      Usb (BulkOut 2 [170, 170, 0, 3, 0, 0, 6, 0, 0, 0])])"
    by (rule mock_upload_newer_patch) simp
  from patch_acceptance [OF B gs clear gv rd_same]
  have rejected: "ath3k_load_patch example_consts ?dev (example_fs same_build_patch) ''/fw'' 0
      (replicate 16 0) [] = Some (- 1, ?tr3 @ [FwFree ?n])"
    by (auto simp: example_patch_versions example_version_fields)
  from patch_acceptance [OF B gs clear gv rd_newer]
  have accepted: "ath3k_load_patch example_consts ?dev (example_fs newer_patch) ''/fw'' 0
      (replicate 16 0) [] = Some (0, ?tr3 @ [Usb (ControlOut 1 0 0 (replicate 20 170)),
                      Usb (BulkOut 2 [170, 170, 0, 3, 0, 0, 6, 0, 0, 0])] @ [FwFree ?n])"
    using up by (auto simp: example_patch_versions example_version_fields)
  from rejected accepted show ?thesis by simp
qed

subsection \<open>C3: a patched device skips the patch stage\<close>

text \<open>
  C3. Whenever the state byte that \<open>ath3k_get_state\<close> leaves to the patch stage has the
  \<open>PATCH_UPDATE\<close> bit set, \<open>ath3k_load_patch\<close> returns 0 and the state query is all it
  has done: no version query, no file read (so no \<^verbatim>\<open>AthrBT_*.dfu\<close> file opened and no
  patch version checked) and no \<open>DNLOAD\<close> transfer.
\<close>

theorem patch_update_skips_patch_stage:
  assumes gs: "ath3k_get_state K dev fw_state tr = (r, st, tr1)"
    and bit: "st AND ATH3K_PATCH_UPDATE K \<noteq> 0"
  shows "ath3k_load_patch K dev fs fw_path fw_state fw_ver tr
           = Some (0, tr @ [Usb (ControlIn (ATH3K_GETSTATE K) 0 0 1)])"
proof -
  from get_state_result [OF gs]
  have "\<not> r < 0" and "tr1 = tr @ [Usb (ControlIn (ATH3K_GETSTATE K) 0 0 1)]" by auto
  then show ?thesis using gs bit by (simp add: ath3k_load_patch_def)
qed

text \<open>A device whose state byte is \<open>0x80\<close>: the patch stage only asks for the state.\<close>

theorem patch_update_skips_patch_stage_witness:
  "ath3k_get_state example_consts (mock_device 128 example_version) 0 []
     = (1, 128, [Usb (ControlIn 5 0 0 1)])
   \<and> (128 :: u8) AND ATH3K_PATCH_UPDATE example_consts \<noteq> 0
   \<and> ath3k_load_patch example_consts (mock_device 128 example_version) (example_fs newer_patch)
        ''/fw'' 0 (replicate 16 0) [] = Some (0, [Usb (ControlIn 5 0 0 1)])"
proof -
  have gs: "ath3k_get_state example_consts (mock_device 128 example_version) 0 []
     = (1, 128, [Usb (ControlIn 5 0 0 1)])"
    by (simp add: ath3k_get_state_def libusb_control_in_def Let_def mock_device_def example_consts_def)
  have bit: "(128 :: u8) AND ATH3K_PATCH_UPDATE example_consts \<noteq> 0"
    by (simp add: example_consts_def)
  from patch_update_skips_patch_stage [OF gs bit, of "example_fs newer_patch" "''/fw''" "replicate 16 0"]
  show ?thesis using gs bit by (simp add: example_consts_def)
qed

subsection \<open>C4: the clock identifier and the syscfg file name\<close>

text \<open>
  C4. In \<open>ath3k_load_syscfg\<close> the \<open>ref_clock\<close> of the version record is mapped to the clock
  identifier by exactly \<open>26M \<mapsto> 26\<close>, \<open>40M \<mapsto> 40\<close>, \<open>19P2 \<mapsto> 19\<close> and every other value
  \<open>\<mapsto> 0\<close> (the three constants are distinct, as the labels of a \<^verbatim>\<open>switch\<close> are), and the
  file the stage reads right after its two queries is
  \<^verbatim>\<open><fw_path>/ar3k/ramps_0x%08x_%d.dfu\<close> with the ROM version and that identifier; hence
  for every \<open>ref_clock\<close> outside the three constants the name ends in \<^verbatim>\<open>_0.dfu\<close>. The name is
  composed in a buffer of \<open>FILENAME_MAX\<close> characters, which the path has to leave room in
  (\<^verbatim>\<open>snprintf\<close> cuts a longer name short).
\<close>

theorem syscfg_clock_and_filename:
  assumes dist: "distinct [ATH3K_XTAL_FREQ_26M K, ATH3K_XTAL_FREQ_40M K, ATH3K_XTAL_FREQ_19P2 K]"
    and B: "0 < BULK_SIZE K"
    and gs: "ath3k_get_state K dev fw_state tr = (r1, st, tr1)"
    and gv: "ath3k_get_version K dev fw_ver tr1 = (r2, vb, tr2)"
    and fit: "length fw_path + 29 < FILENAME_MAX K"
  shows "clk_value_of K (ATH3K_XTAL_FREQ_26M K) = 26
       \<and> clk_value_of K (ATH3K_XTAL_FREQ_40M K) = 40
       \<and> clk_value_of K (ATH3K_XTAL_FREQ_19P2 K) = 19
       \<and> (rc \<noteq> ATH3K_XTAL_FREQ_26M K \<and> rc \<noteq> ATH3K_XTAL_FREQ_40M K \<and> rc \<noteq> ATH3K_XTAL_FREQ_19P2 K
            \<longrightarrow> clk_value_of K rc = 0)
       \<and> (\<exists>r evs. ath3k_load_syscfg K dev fs fw_path fw_state fw_ver tr
             = Some (r, tr2 @ FwRead (fw_path @ ''/ar3k/ramps_0x''
                                        @ fmt_08x (rom_version (version_of vb)) @ ''_''
                                        @ fmt_d (clk_value_of K (ref_clock (version_of vb)))
                                        @ ''.dfu'') # evs))
       \<and> (ref_clock (version_of vb) \<noteq> ATH3K_XTAL_FREQ_26M K
            \<and> ref_clock (version_of vb) \<noteq> ATH3K_XTAL_FREQ_40M K
            \<and> ref_clock (version_of vb) \<noteq> ATH3K_XTAL_FREQ_19P2 K
            \<longrightarrow> (\<exists>r evs. ath3k_load_syscfg K dev fs fw_path fw_state fw_ver tr
                   = Some (r, tr2 @ FwRead (fw_path @ ''/ar3k/ramps_0x''
                                        @ fmt_08x (rom_version (version_of vb)) @ ''_0.dfu'') # evs)))"
proof -
  let ?clk = "clk_value_of K (ref_clock (version_of vb))"
  let ?name = "fw_path @ ''/ar3k/ramps_0x'' @ fmt_08x (rom_version (version_of vb)) @ ''_''
                 @ fmt_d ?clk @ ''.dfu''"
  from get_state_result [OF gs] have r1: "\<not> r1 < 0" by auto
  from get_version_result [OF gv] have r2: "\<not> r2 < 0" by auto
  have "length ?name < FILENAME_MAX K"
    using fit length_fmt_d_clk [of K "ref_clock (version_of vb)"] by (simp add: length_fmt_08x)
  then have name: "snprintf (FILENAME_MAX K) ?name = ?name" by (rule snprintf_fits)
  have run: "\<exists>r evs. ath3k_load_syscfg K dev fs fw_path fw_state fw_ver tr
             = Some (r, tr2 @ FwRead ?name # evs)"
  proof (cases "ath3k_fw_read fs ?name tr2")
    case (Pair res tr3)
    from fw_read_trace [OF Pair] have tr3: "tr3 = tr2 @ [FwRead ?name]" .
    show ?thesis
    proof (cases res)
      case None
      then have "ath3k_load_syscfg K dev fs fw_path fw_state fw_ver tr
             = Some (- 1, tr2 @ FwRead ?name # [])"
        using gs gv r1 r2 Pair tr3 name by (simp add: ath3k_load_syscfg_def Let_def)
      then show ?thesis by blast
    next
      case (Some fw)
      from load_fwfile_emits [OF B, of dev fw tr3]
      obtain r d cs where up: "ath3k_load_fwfile K dev fw tr3
        = Some (r, tr3 @ Usb (ControlOut (ATH3K_DNLOAD K) 0 0 d) # map (\<lambda>c. Usb (BulkOut 2 c)) cs)"
        by blast
      have "ath3k_load_syscfg K dev fs fw_path fw_state fw_ver tr
             = Some (r, tr2 @ FwRead ?name
                  # (Usb (ControlOut (ATH3K_DNLOAD K) 0 0 d) # map (\<lambda>c. Usb (BulkOut 2 c)) cs
                       @ [FwFree (fwname fw)]))"
        using gs gv r1 r2 Pair Some name up
        by (simp add: ath3k_load_syscfg_def Let_def tr3 ath3k_fw_free_def)
      then show ?thesis by blast
    qed
  qed
  have zero: "ref_clock (version_of vb) \<noteq> ATH3K_XTAL_FREQ_26M K
            \<and> ref_clock (version_of vb) \<noteq> ATH3K_XTAL_FREQ_40M K
            \<and> ref_clock (version_of vb) \<noteq> ATH3K_XTAL_FREQ_19P2 K
        \<Longrightarrow> ?name = fw_path @ ''/ar3k/ramps_0x'' @ fmt_08x (rom_version (version_of vb)) @ ''_0.dfu''"
    by (simp add: clk_value_of_def fmt_d_clock)
  have map: "clk_value_of K (ATH3K_XTAL_FREQ_26M K) = 26"
    "clk_value_of K (ATH3K_XTAL_FREQ_40M K) = 40"
    "clk_value_of K (ATH3K_XTAL_FREQ_19P2 K) = 19"
    "rc \<noteq> ATH3K_XTAL_FREQ_26M K \<and> rc \<noteq> ATH3K_XTAL_FREQ_40M K \<and> rc \<noteq> ATH3K_XTAL_FREQ_19P2 K
            \<longrightarrow> clk_value_of K rc = 0"
    using dist by (auto simp: clk_value_of_def)
  from run zero have "ref_clock (version_of vb) \<noteq> ATH3K_XTAL_FREQ_26M K
            \<and> ref_clock (version_of vb) \<noteq> ATH3K_XTAL_FREQ_40M K
            \<and> ref_clock (version_of vb) \<noteq> ATH3K_XTAL_FREQ_19P2 K
            \<longrightarrow> (\<exists>r evs. ath3k_load_syscfg K dev fs fw_path fw_state fw_ver tr
                   = Some (r, tr2 @ FwRead (fw_path @ ''/ar3k/ramps_0x''
                                        @ fmt_08x (rom_version (version_of vb)) @ ''_0.dfu'') # evs))"
    by auto
  with map run show ?thesis by blast
qed

text \<open>
  A device that reports the unknown clock code 7 and ROM \<open>0x300\<close>: the stage reads
  \<^verbatim>\<open>/fw/ar3k/ramps_0x00000300_0.dfu\<close>.
\<close>

theorem syscfg_clock_and_filename_witness:
  "distinct [ATH3K_XTAL_FREQ_26M example_consts, ATH3K_XTAL_FREQ_40M example_consts,
             ATH3K_XTAL_FREQ_19P2 example_consts]
   \<and> 0 < BULK_SIZE example_consts
   \<and> length ''/fw'' + 29 < FILENAME_MAX example_consts
   \<and> ref_clock (version_of odd_clock_version) = 7
   \<and> clk_value_of example_consts 7 = 0
   \<and> (\<exists>r evs. ath3k_load_syscfg example_consts (failing_on 10 (mock_device 142 odd_clock_version))
                 (example_fs newer_patch) ''/fw'' 0 (replicate 16 0) []
               = Some (r, [Usb (ControlIn 5 0 0 1), Usb (ControlIn 9 0 0 16),
                           FwRead ''/fw/ar3k/ramps_0x00000300_0.dfu''] @ evs))
   \<and> suffix ''_0.dfu'' ''/fw/ar3k/ramps_0x00000300_0.dfu''"
proof -
  let ?dev = "failing_on 10 (mock_device 142 odd_clock_version)"
  let ?tr1 = "[Usb (ControlIn 5 0 0 1)]"
  let ?tr2 = "[Usb (ControlIn 5 0 0 1), Usb (ControlIn 9 0 0 16)]"
  have dist: "distinct [ATH3K_XTAL_FREQ_26M example_consts, ATH3K_XTAL_FREQ_40M example_consts,
             ATH3K_XTAL_FREQ_19P2 example_consts]"
    by (simp add: example_consts_def)
  have B: "0 < BULK_SIZE example_consts" by (simp add: example_consts_def)
  have fit: "length ''/fw'' + 29 < FILENAME_MAX example_consts" by (simp add: example_consts_def)
  have gs: "ath3k_get_state example_consts ?dev 0 [] = (1, 142, ?tr1)"
    using mock_get_state [of example_consts 10 142 odd_clock_version 0 "[]"]
    by (simp add: example_consts_def)
  have gv: "ath3k_get_version example_consts ?dev (replicate 16 0) ?tr1 = (1, odd_clock_version, ?tr2)"
    using mock_get_version [of odd_clock_version "replicate 16 0" example_consts 10 142 ?tr1]
    by (simp add: example_consts_def odd_clock_version_def)
  have odd: "(7 :: u32) \<noteq> ATH3K_XTAL_FREQ_26M example_consts"
    "(7 :: u32) \<noteq> ATH3K_XTAL_FREQ_40M example_consts"
    "(7 :: u32) \<noteq> ATH3K_XTAL_FREQ_19P2 example_consts"
    by (simp_all add: example_consts_def)
  have sfx: "suffix ''_0.dfu'' ''/fw/ar3k/ramps_0x00000300_0.dfu''"
    by (rule suffixI [of _ "''/fw/ar3k/ramps_0x00000300''"]) simp
  from syscfg_clock_and_filename [OF dist B gs gv fit, of 7 "example_fs newer_patch"]
  show ?thesis
    using dist B fit odd sfx by (simp add: odd_clock_version_fields fmt_08x_example)
qed

subsection \<open>C5: Stage N\<close>

text \<open>
  C5. In Stage N, when the state byte masked with \<open>MODE_MASK\<close> equals \<open>NORMAL_MODE\<close>,
  \<open>ath3k_set_normal_mode\<close> returns 0 (success for its caller, which tests for a negative
  value) having issued the state query only, so no \<open>SET_NORMAL_MODE\<close> transfer. And in every run of \<open>ath3k_init_ar3012\<close> that reaches
  Stage N (the patch and syscfg stages returned without error), the run returns and its trace
  is that of \<open>ath3k_set_normal_mode\<close> followed by the \<open>SWITCH_VID_PID\<close> control transfer,
  whatever Stage N's first step did.
\<close>

theorem normal_mode_skip_and_pid_switch:
  "(fst (snd (ath3k_get_state K dev fw_state t)) AND ATH3K_MODE_MASK K = ATH3K_NORMAL_MODE K
      \<longrightarrow> ath3k_set_normal_mode K dev fw_state t
            = (0, t @ [Usb (ControlIn (ATH3K_GETSTATE K) 0 0 1)]))
   \<and> (ath3k_load_patch K dev fs p (patch_state L) (patch_ver L) tr = Some (r1, tr1) \<and> 0 \<le> r1
       \<and> ath3k_load_syscfg K dev fs p (syscfg_state L) (syscfg_ver L) tr1 = Some (r2, tr2) \<and> 0 \<le> r2
      \<longrightarrow> map_option snd (ath3k_init_ar3012 K dev fs p L tr)
            = Some (snd (ath3k_set_normal_mode K dev (normal_state L) tr2)
                      @ [Usb (ControlOut (USB_REG_SWITCH_VID_PID K) 0 0 [])]))"
proof (intro conjI impI)
  assume nm: "fst (snd (ath3k_get_state K dev fw_state t)) AND ATH3K_MODE_MASK K = ATH3K_NORMAL_MODE K"
  obtain r st t1 where gs: "ath3k_get_state K dev fw_state t = (r, st, t1)"
    by (cases "ath3k_get_state K dev fw_state t")
  from get_state_result [OF gs]
  have "\<not> r < 0" and "t1 = t @ [Usb (ControlIn (ATH3K_GETSTATE K) 0 0 1)]" by auto
  then show "ath3k_set_normal_mode K dev fw_state t = (0, t @ [Usb (ControlIn (ATH3K_GETSTATE K) 0 0 1)])"
    using gs nm by (simp add: ath3k_set_normal_mode_def)
next
  assume reach: "ath3k_load_patch K dev fs p (patch_state L) (patch_ver L) tr = Some (r1, tr1) \<and> 0 \<le> r1
       \<and> ath3k_load_syscfg K dev fs p (syscfg_state L) (syscfg_ver L) tr1 = Some (r2, tr2) \<and> 0 \<le> r2"
  then have "ath3k_init_ar3012 K dev fs p L tr
           = Some (0, snd (ath3k_switch_pid K dev
                        (snd (ath3k_set_normal_mode K dev (normal_state L) tr2))))"
    by (intro init_ar3012_stage_N) auto
  then show "map_option snd (ath3k_init_ar3012 K dev fs p L tr)
            = Some (snd (ath3k_set_normal_mode K dev (normal_state L) tr2)
                      @ [Usb (ControlOut (USB_REG_SWITCH_VID_PID K) 0 0 [])])"
    by (simp add: switch_pid_trace)
qed

text \<open>
  A device already patched and in normal mode (state \<open>0x8E\<close>): Stage N asks for the state,
  sends no \<open>SET_NORMAL_MODE\<close> (request 7) and then sends \<open>SWITCH_VID_PID\<close> (request 10).
\<close>

theorem normal_mode_skip_and_pid_switch_witness:
  "fst (snd (ath3k_get_state example_consts (failing_on 10 (mock_device 142 example_version)) 0
          [Usb (ControlIn 5 0 0 1)]))
      AND ATH3K_MODE_MASK example_consts = ATH3K_NORMAL_MODE example_consts
   \<and> ath3k_set_normal_mode example_consts (failing_on 10 (mock_device 142 example_version)) 0
        [Usb (ControlIn 5 0 0 1)]
      = (0, [Usb (ControlIn 5 0 0 1), Usb (ControlIn 5 0 0 1)])
   \<and> map_option fst (ath3k_load_patch example_consts (failing_on 10 (mock_device 142 example_version))
        (example_fs newer_patch) ''/fw'' 0 (replicate 16 0) []) = Some 0
   \<and> map_option fst (ath3k_load_syscfg example_consts (failing_on 10 (mock_device 142 example_version))
        (example_fs newer_patch) ''/fw'' 0 (replicate 16 0) [Usb (ControlIn 5 0 0 1)]) = Some 0
   \<and> map_option snd (ath3k_init_ar3012 example_consts
        (failing_on 10 (mock_device 142 example_version))
        (example_fs newer_patch) ''/fw'' example_locals [])
      = Some [Usb (ControlIn 5 0 0 1),
          Usb (ControlIn 5 0 0 1), Usb (ControlIn 9 0 0 16),
          FwRead ''/fw/ar3k/ramps_0x00000300_26.dfu'',
          Usb (ControlOut 1 0 0 (replicate 20 51)), Usb (BulkOut 2 (replicate 20 51)),
          FwFree ''/fw/ar3k/ramps_0x00000300_26.dfu'',
          Usb (ControlIn 5 0 0 1),
          Usb (ControlOut 10 0 0 [])]"
proof -
  let ?dev = "failing_on 10 (mock_device 142 example_version)"
  let ?fs = "example_fs newer_patch"
  let ?tr1 = "[Usb (ControlIn 5 0 0 1)]"
  let ?tr2 = "[Usb (ControlIn 5 0 0 1),
          Usb (ControlIn 5 0 0 1), Usb (ControlIn 9 0 0 16),
          FwRead ''/fw/ar3k/ramps_0x00000300_26.dfu'',
          Usb (ControlOut 1 0 0 (replicate 20 51)), Usb (BulkOut 2 (replicate 20 51)),
          FwFree ''/fw/ar3k/ramps_0x00000300_26.dfu'']"
  have L: "patch_state example_locals = 0" "patch_ver example_locals = replicate 16 0"
    "syscfg_state example_locals = 0" "syscfg_ver example_locals = replicate 16 0"
    "normal_state example_locals = 0"
    by (simp_all add: example_locals_def)
  have P: "ath3k_load_patch example_consts ?dev ?fs ''/fw'' 0 (replicate 16 0) [] = Some (0, ?tr1)"
    using mock_load_patch_skip [of 10 example_version ?fs "''/fw''" 0 "replicate 16 0" "[]"] by simp
  have S: "ath3k_load_syscfg example_consts ?dev ?fs ''/fw'' 0 (replicate 16 0) ?tr1 = Some (0, ?tr2)"
    using mock_load_syscfg [of 10 "replicate 16 0" 142 newer_patch 0 ?tr1] by simp
  have N: "ath3k_set_normal_mode example_consts ?dev 0 ?tr2 = (0, ?tr2 @ [Usb (ControlIn 5 0 0 1)])"
    by (rule mock_set_normal_mode_skip)
  have M: "fst (snd (ath3k_get_state example_consts ?dev 0 ?tr1))
      AND ATH3K_MODE_MASK example_consts = ATH3K_NORMAL_MODE example_consts"
    by (simp add: mock_get_state example_consts_def)
  have K: "USB_REG_SWITCH_VID_PID example_consts = 10" "ATH3K_GETSTATE example_consts = 5"
    by (simp_all add: example_consts_def)
  from normal_mode_skip_and_pid_switch [of example_consts ?dev 0 ?tr1 ?fs "''/fw''" example_locals
      "[]" 0 ?tr1 0 ?tr2]
  show ?thesis
    using M P S N by (auto simp: L K)
qed

subsection \<open>C6: a failed query inside a stage\<close>

text \<open>
  C6. The claim: when a state or version query fails inside a stage, the stage aborts at
  once with an error. The code: on a failed transfer the queries return 0, and the stages test
  \<^verbatim>\<open>ret < 0\<close>, so they go on with what their uninitialised locals hold. On a device that is
  unplugged after the two queries of \<^verbatim>\<open>main\<close> (locals all zero), the patch stage still asks
  for the version and then reads a file named after the unset ROM version 0, the syscfg
  stage does the same, and \<open>ath3k_set_normal_mode\<close> sends \<open>SET_NORMAL_MODE\<close> and returns 0.
\<close>

theorem query_failure_goes_unnoticed:
  "fst (ath3k_get_state example_consts (dies_after 2 (mock_device 0 example_version)) 0 main_queries) = 0
   \<and> ath3k_load_patch example_consts (dies_after 2 (mock_device 0 example_version))
         (example_fs newer_patch) ''/fw'' 0 (replicate 16 0) main_queries
       = Some (- 1, main_queries @ [Usb (ControlIn 5 0 0 1), Usb (ControlIn 9 0 0 16),
                     FwRead ''/fw/ar3k/AthrBT_0x00000000.dfu''])
   \<and> ath3k_load_syscfg example_consts (dies_after 2 (mock_device 0 example_version))
         (example_fs newer_patch) ''/fw'' 0 (replicate 16 0) main_queries
       = Some (- 1, main_queries @ [Usb (ControlIn 5 0 0 1), Usb (ControlIn 9 0 0 16),
                     FwRead ''/fw/ar3k/ramps_0x00000000_19.dfu''])
   \<and> ath3k_set_normal_mode example_consts (dies_after 2 (mock_device 0 example_version)) 0 main_queries
       = (0, main_queries @ [Usb (ControlIn 5 0 0 1), Usb (ControlOut 7 0 0 [])])"
proof -
  let ?dev = "dies_after 2 (mock_device 0 example_version)"
  note gs = unplugged_get_state [of "mock_device 0 example_version" _ "[]", simplified]
  note gv = unplugged_get_version [of "mock_device 0 example_version" _ "[Usb (ControlIn 5 0 0 1)]", simplified]
  have K: "FILENAME_MAX example_consts = 1024" "ATH3K_PATCH_UPDATE example_consts = 128"
    "ATH3K_MODE_MASK example_consts = 63" "ATH3K_NORMAL_MODE example_consts = 14"
    "ATH3K_SET_NORMAL_MODE example_consts = 7"
    by (simp_all add: example_consts_def)
  have clk: "clk_value_of example_consts 0 = 19" by (simp add: clk_value_of_def example_consts_def)
  have P: "ath3k_load_patch example_consts ?dev (example_fs newer_patch) ''/fw'' 0 (replicate 16 0)
        main_queries
       = Some (- 1, main_queries @ [Usb (ControlIn 5 0 0 1), Usb (ControlIn 9 0 0 16),
                     FwRead ''/fw/ar3k/AthrBT_0x00000000.dfu''])"
    by (simp add: ath3k_load_patch_def gs gv zero_version_fields fmt_08x_zero K snprintf_def Let_def
        ath3k_fw_read_def example_fs_def)
  have S: "ath3k_load_syscfg example_consts ?dev (example_fs newer_patch) ''/fw'' 0 (replicate 16 0)
        main_queries
       = Some (- 1, main_queries @ [Usb (ControlIn 5 0 0 1), Usb (ControlIn 9 0 0 16),
                     FwRead ''/fw/ar3k/ramps_0x00000000_19.dfu''])"
    by (simp add: ath3k_load_syscfg_def gs gv zero_version_fields fmt_08x_zero K clk fmt_d_clock
        snprintf_def Let_def ath3k_fw_read_def example_fs_def)
  have N: "ath3k_set_normal_mode example_consts ?dev 0 main_queries
       = (0, main_queries @ [Usb (ControlIn 5 0 0 1), Usb (ControlOut 7 0 0 [])])"
    by (simp add: ath3k_set_normal_mode_def gs K)
       (simp add: libusb_control_out_def dies_after_def dead_device_def main_queries_def)
  from gs [of 0] P S N show ?thesis by simp
qed

text \<open>
  Read off these runs: the patch stage did more than ask for the state, and the first step
  of Stage N reported no error.
\<close>

theorem query_failure_goes_unnoticed_witness:
  "map_option snd
       (ath3k_load_patch example_consts (dies_after 2 (mock_device 0 example_version))
          (example_fs newer_patch) ''/fw'' 0 (replicate 16 0) main_queries)
     \<noteq> Some (main_queries @ [Usb (ControlIn 5 0 0 1)])
   \<and> fst (ath3k_set_normal_mode example_consts (dies_after 2 (mock_device 0 example_version)) 0
        main_queries) = 0"
  using query_failure_goes_unnoticed by simp

subsection \<open>C7: a failed upload in the legacy plan\<close>

text \<open>
  C7. The claim: when the upload of \<^verbatim>\<open>ath3k-1.fw\<close> fails, the legacy stage returns an error.
  The code: \<open>ath3k_init_firmware\<close> stores the result of \<open>ath3k_load_fwfile\<close> and returns 0.
  On a device that is unplugged after the two queries of \<^verbatim>\<open>main\<close> the upload returns \<open>-1\<close>
  after the refused \<open>DNLOAD\<close>, and the stage returns 0.
\<close>

theorem legacy_upload_failure_returns_success:
  "ath3k_load_fwfile example_consts (dies_after 2 (mock_device 0 example_version))
       \<lparr> fwname = ''/fw/ath3k-1.fw'', buf = replicate 5000 85 \<rparr>
       (main_queries @ [FwRead ''/fw/ath3k-1.fw''])
     = Some (- 1, main_queries @ [FwRead ''/fw/ath3k-1.fw'', Usb (ControlOut 1 0 0 (replicate 20 85))])
   \<and> ath3k_init_firmware example_consts (dies_after 2 (mock_device 0 example_version))
       (example_fs newer_patch) ''/fw'' main_queries
     = Some (0, main_queries @ [FwRead ''/fw/ath3k-1.fw'', Usb (ControlOut 1 0 0 (replicate 20 85)),
                 FwFree ''/fw/ath3k-1.fw''])"
proof -
  let ?dev = "dies_after 2 (mock_device 0 example_version)"
  have up: "ath3k_load_fwfile example_consts ?dev
       \<lparr> fwname = ''/fw/ath3k-1.fw'', buf = replicate 5000 85 \<rparr>
       (main_queries @ [FwRead ''/fw/ath3k-1.fw''])
     = Some (- 1, main_queries @ [FwRead ''/fw/ath3k-1.fw'', Usb (ControlOut 1 0 0 (replicate 20 85))])"
    by (simp add: ath3k_load_fwfile_def libusb_control_out_def Let_def len_def dies_after_def
        dead_device_def example_consts_def main_queries_def)
  have rd: "ath3k_fw_read (example_fs newer_patch) ''/fw/ath3k-1.fw'' main_queries
     = (Some \<lparr> fwname = ''/fw/ath3k-1.fw'', buf = replicate 5000 85 \<rparr>,
        main_queries @ [FwRead ''/fw/ath3k-1.fw''])"
    by (simp add: ath3k_fw_read_def example_fs_def)
  have K: "FILENAME_MAX example_consts = 1024" by (simp add: example_consts_def)
  have "ath3k_init_firmware example_consts ?dev (example_fs newer_patch) ''/fw'' main_queries
     = Some (0, main_queries @ [FwRead ''/fw/ath3k-1.fw'', Usb (ControlOut 1 0 0 (replicate 20 85)),
                 FwFree ''/fw/ath3k-1.fw''])"
    by (simp add: ath3k_init_firmware_def K snprintf_def Let_def rd up ath3k_fw_free_def)
  with up show ?thesis by simp
qed

text \<open>Read off this run: the upload failed and the legacy stage reported success.\<close>

theorem legacy_upload_failure_returns_success_witness:
  "map_option fst
       (ath3k_load_fwfile example_consts (dies_after 2 (mock_device 0 example_version))
          \<lparr> fwname = ''/fw/ath3k-1.fw'', buf = replicate 5000 85 \<rparr>
          (main_queries @ [FwRead ''/fw/ath3k-1.fw'']))
     = Some (- 1)
   \<and> map_option fst
       (ath3k_init_firmware example_consts (dies_after 2 (mock_device 0 example_version))
          (example_fs newer_patch) ''/fw'' main_queries)
     = Some 0"
  using legacy_upload_failure_returns_success by simp

subsection \<open>C8: the patch trailer\<close>

text \<open>
  C8. The version of a patch is read from the last 8 bytes of the blob: the ROM version from
  the four bytes at \<open>[len - 8, len - 4)\<close>, the build version from the four at
  \<open>[len - 4, len)\<close>. Whatever precedes these 8 bytes plays no part.
\<close>

theorem patch_version_is_the_trailer:
  assumes "buf fw = front @ [a0, a1, a2, a3, b0, b1, b2, b3]"
  shows "pt_rom_version fw = le32 [a0, a1, a2, a3]
       \<and> pt_build_version fw = le32 [b0, b1, b2, b3]"
  using assms by (simp add: pt_rom_version_def pt_build_version_def read_int_def len_def)

text \<open>The build-6 patch: 22 bytes of payload, then ROM \<open>0x300\<close> and build 6.\<close>

theorem patch_version_is_the_trailer_witness:
  "buf \<lparr> fwname = ''/fw/ar3k/AthrBT_0x00000300.dfu'', buf = newer_patch \<rparr>
     = replicate 22 170 @ [0, 3, 0, 0, 6, 0, 0, 0]
   \<and> pt_rom_version \<lparr> fwname = ''/fw/ar3k/AthrBT_0x00000300.dfu'', buf = newer_patch \<rparr> = 768
   \<and> pt_build_version \<lparr> fwname = ''/fw/ar3k/AthrBT_0x00000300.dfu'', buf = newer_patch \<rparr> = 6"
proof -
  have b: "buf \<lparr> fwname = ''/fw/ar3k/AthrBT_0x00000300.dfu'', buf = newer_patch \<rparr>
     = replicate 22 170 @ [0, 3, 0, 0, 6, 0, 0, 0]"
    by (simp add: newer_patch_def)
  from patch_version_is_the_trailer [OF b] b show ?thesis by simp
qed

subsection \<open>C9: the PID switch is fire-and-forget\<close>

text \<open>
  C9. In every run of \<open>ath3k_init_ar3012\<close> that reaches the last step of Stage N, the
  orchestrator returns 0 whatever \<open>ath3k_switch_pid\<close> returns: the result \<open>r4\<close> of the
  switch is not part of the outcome.
\<close>

theorem switch_pid_failure_is_not_fatal:
  assumes "ath3k_load_patch K dev fs p (patch_state L) (patch_ver L) tr = Some (r1, tr1)"
    and "0 \<le> r1"
    and "ath3k_load_syscfg K dev fs p (syscfg_state L) (syscfg_ver L) tr1 = Some (r2, tr2)"
    and "0 \<le> r2"
    and "ath3k_set_normal_mode K dev (normal_state L) tr2 = (r3, tr3)"
    and "ath3k_switch_pid K dev tr3 = (r4, tr4)"
  shows "ath3k_init_ar3012 K dev fs p L tr = Some (0, tr4)"
  using init_ar3012_stage_N [OF assms(1-4)] assms(5,6) by simp

text \<open>
  The same device, on which the \<open>SWITCH_VID_PID\<close> transfer fails: \<open>ath3k_switch_pid\<close>
  returns its failure value 0 and the plan still returns 0.
\<close>

theorem switch_pid_failure_is_not_fatal_witness:
  "ath3k_switch_pid example_consts (failing_on 10 (mock_device 142 example_version))
        [Usb (ControlIn 5 0 0 1),
          Usb (ControlIn 5 0 0 1), Usb (ControlIn 9 0 0 16),
          FwRead ''/fw/ar3k/ramps_0x00000300_26.dfu'',
          Usb (ControlOut 1 0 0 (replicate 20 51)), Usb (BulkOut 2 (replicate 20 51)),
          FwFree ''/fw/ar3k/ramps_0x00000300_26.dfu'',
          Usb (ControlIn 5 0 0 1)]
      = (0, [Usb (ControlIn 5 0 0 1),
          Usb (ControlIn 5 0 0 1), Usb (ControlIn 9 0 0 16),
          FwRead ''/fw/ar3k/ramps_0x00000300_26.dfu'',
          Usb (ControlOut 1 0 0 (replicate 20 51)), Usb (BulkOut 2 (replicate 20 51)),
          FwFree ''/fw/ar3k/ramps_0x00000300_26.dfu'',
          Usb (ControlIn 5 0 0 1),
          Usb (ControlOut 10 0 0 [])])
   \<and> ath3k_init_ar3012 example_consts (failing_on 10 (mock_device 142 example_version))
        (example_fs newer_patch) ''/fw'' example_locals []
      = Some (0, [Usb (ControlIn 5 0 0 1),
          Usb (ControlIn 5 0 0 1), Usb (ControlIn 9 0 0 16),
          FwRead ''/fw/ar3k/ramps_0x00000300_26.dfu'',
          Usb (ControlOut 1 0 0 (replicate 20 51)), Usb (BulkOut 2 (replicate 20 51)),
          FwFree ''/fw/ar3k/ramps_0x00000300_26.dfu'',
          Usb (ControlIn 5 0 0 1),
          Usb (ControlOut 10 0 0 [])])"
proof -
  let ?dev = "failing_on 10 (mock_device 142 example_version)"
  let ?fs = "example_fs newer_patch"
  let ?tr1 = "[Usb (ControlIn 5 0 0 1)]"
  let ?tr2 = "[Usb (ControlIn 5 0 0 1),
          Usb (ControlIn 5 0 0 1), Usb (ControlIn 9 0 0 16),
          FwRead ''/fw/ar3k/ramps_0x00000300_26.dfu'',
          Usb (ControlOut 1 0 0 (replicate 20 51)), Usb (BulkOut 2 (replicate 20 51)),
          FwFree ''/fw/ar3k/ramps_0x00000300_26.dfu'']"
  have L: "patch_state example_locals = 0" "patch_ver example_locals = replicate 16 0"
    "syscfg_state example_locals = 0" "syscfg_ver example_locals = replicate 16 0"
    "normal_state example_locals = 0"
    by (simp_all add: example_locals_def)
  have P: "ath3k_load_patch example_consts ?dev ?fs ''/fw'' (patch_state example_locals)
       (patch_ver example_locals) [] = Some (0, ?tr1)"
    using mock_load_patch_skip [of 10 example_version ?fs "''/fw''" 0 "replicate 16 0" "[]"]
    by (simp add: L)
  have S: "ath3k_load_syscfg example_consts ?dev ?fs ''/fw'' (syscfg_state example_locals)
       (syscfg_ver example_locals) ?tr1 = Some (0, ?tr2)"
    using mock_load_syscfg [of 10 "replicate 16 0" 142 newer_patch 0 ?tr1] by (simp add: L)
  have N: "ath3k_set_normal_mode example_consts ?dev (normal_state example_locals) ?tr2
      = (0, ?tr2 @ [Usb (ControlIn 5 0 0 1)])"
    unfolding L by (rule mock_set_normal_mode_skip)
  have W: "ath3k_switch_pid example_consts ?dev (?tr2 @ [Usb (ControlIn 5 0 0 1)])
      = (0, (?tr2 @ [Usb (ControlIn 5 0 0 1)]) @ [Usb (ControlOut 10 0 0 [])])"
    by (rule failing_switch_pid)
  have z: "(0::int) \<le> 0" by simp
  from switch_pid_failure_is_not_fatal [OF P z S z N W] W
  show ?thesis by simp
qed

subsection \<open>C10: what the queries return\<close>

text \<open>
  C10. On every input \<open>ath3k_get_state\<close> and \<open>ath3k_get_version\<close> return 1 when the
  control transfer returned the full length (1 byte, 16 bytes) and 0 otherwise, that is on a
  transport error and on a short read; they never return a negative value, so a caller that
  tests the result with \<^verbatim>\<open>< 0\<close> never sees a failure.
\<close>

theorem queries_return_0_or_1:
  "fst (ath3k_get_state K dev state tr)
     = (if usb_ret (dev (usb_of tr @ [ControlIn (ATH3K_GETSTATE K) 0 0 1])) = 1 then 1 else 0)
   \<and> fst (ath3k_get_version K dev version tr)
     = (if usb_ret (dev (usb_of tr @ [ControlIn (ATH3K_GETVERSION K) 0 0 16])) = 16 then 1 else 0)
   \<and> \<not> fst (ath3k_get_state K dev state tr) < 0
   \<and> \<not> fst (ath3k_get_version K dev version tr) < 0"
  by (simp add: ath3k_get_state_def ath3k_get_version_def libusb_control_in_def Let_def
      sizeof_ath3k_version_def)

text \<open>On a dead device both queries return 0; on an answering one both return 1.\<close>

theorem queries_return_0_or_1_witness:
  "fst (ath3k_get_state example_consts dead_device 0 []) = 0
   \<and> fst (ath3k_get_version example_consts dead_device (replicate 16 0) []) = 0
   \<and> fst (ath3k_get_state example_consts (mock_device 128 example_version) 0 []) = 1
   \<and> fst (ath3k_get_version example_consts (mock_device 128 example_version) (replicate 16 0) []) = 1"
  using queries_return_0_or_1 [of example_consts dead_device 0 "[]" "replicate 16 0"]
    queries_return_0_or_1 [of example_consts "mock_device 128 example_version" 0 "[]" "replicate 16 0"]
  by (simp add: dead_device_def mock_device_def example_consts_def)

end
